theory Spec2Isabelle
  imports Complex_Main "HOL-Library.AList"
begin

section \<open>Risk scorer\<close>

text \<open>
  Numbers of the Python program are modelled exactly: the integer slider value
  \<open>edad\<close> is an \<open>int\<close>, every other numeric input and every score is a
  rational number, and the decimal literals of the source (\<open>2.5\<close>, \<open>0.8\<close>,
  \<open>38.5\<close>, ...) are the rationals they denote. Strings are byte lists; the literals
  of the source that are not ASCII are written in the UTF-8 encoding the file declares.
\<close>

text \<open>The answer ``yes'' of the two radio inputs: an \<open>S\<close> and an i with acute accent.\<close>

definition Si :: string where
  "Si = ''S'' @ [CHR 0xC3, CHR 0xAD]"

text \<open>
  Python's \<^verbatim>\<open>round(x, ndigits)\<close>: the nearest multiple of \<open>10 ^ -ndigits\<close>,
  a tie going to the even multiple.
\<close>

definition round_half_even :: "rat \<Rightarrow> int" where
  "round_half_even y =
     (let f = \<lfloor>y\<rfloor>; d = y - of_int f
      in if d < 1 / 2 then f
         else if 1 / 2 < d then f + 1
         else if even f then f else f + 1)"

definition py_round :: "rat \<Rightarrow> nat \<Rightarrow> rat" where
  "py_round x ndigits = of_int (round_half_even (x * 10 ^ ndigits)) / 10 ^ ndigits"

text \<open>
  The body of \<^verbatim>\<open>calcular_score_riesgo\<close> up to its \<^verbatim>\<open>return\<close>: the value of the
  local variable \<^verbatim>\<open>score\<close> after the eleven \<^verbatim>\<open>if/elif\<close> chains, each of
  which adds to the running total.
\<close>

definition score_acumulado ::
  "int \<Rightarrow> rat \<Rightarrow> rat \<Rightarrow> string \<Rightarrow> rat \<Rightarrow> string \<Rightarrow> string \<Rightarrow> string \<Rightarrow> string \<Rightarrow> string \<Rightarrow> rat \<Rightarrow> rat"
where
  "score_acumulado edad ct_blood bmi genero temperatura tos escalofrios dolores vomitos
       dificultad_respiratoria saturacion_oxigeno =
     (let score = 0;
          score = (if edad \<ge> 60 then score + 3
                   else if edad \<ge> 40 then score + 2
                   else if edad \<ge> 18 then score + 1
                   else score);
          score = (if ct_blood < 20 then score + 25 / 10
                   else if ct_blood < 22 then score + 15 / 10
                   else if ct_blood < 24 then score + 5 / 10
                   else score);
          score = (if bmi > 35 then score + 2
                   else if bmi > 30 then score + 1
                   else if bmi < 185 / 10 then score + 1
                   else score);
          score = (if genero = ''Masculino'' then score + 5 / 10 else score);
          score = (if temperatura \<ge> 385 / 10 then score + 2
                   else if temperatura \<ge> 38 then score + 15 / 10
                   else if temperatura \<ge> 375 / 10 then score + 1
                   else score);
          score = (if tos = ''Severa'' then score + 15 / 10
                   else if tos = ''Moderada'' then score + 1
                   else if tos = ''Leve'' then score + 5 / 10
                   else score);
          score = (if escalofrios = Si then score + 8 / 10 else score);
          score = (if dolores = ''Severos'' then score + 12 / 10
                   else if dolores = ''Moderados'' then score + 8 / 10
                   else if dolores = ''Leves'' then score + 4 / 10
                   else score);
          score = (if vomitos = Si then score + 7 / 10 else score);
          score = (if dificultad_respiratoria = ''Severa'' then score + 25 / 10
                   else if dificultad_respiratoria = ''Moderada'' then score + 15 / 10
                   else if dificultad_respiratoria = ''Leve'' then score + 8 / 10
                   else score);
          score = (if saturacion_oxigeno < 90 then score + 3
                   else if saturacion_oxigeno < 93 then score + 2
                   else if saturacion_oxigeno < 95 then score + 1
                   else score)
      in score)"

definition calcular_score_riesgo ::
  "int \<Rightarrow> rat \<Rightarrow> rat \<Rightarrow> string \<Rightarrow> rat \<Rightarrow> string \<Rightarrow> string \<Rightarrow> string \<Rightarrow> string \<Rightarrow> string \<Rightarrow> rat \<Rightarrow> rat"
where
  "calcular_score_riesgo edad ct_blood bmi genero temperatura tos escalofrios dolores vomitos
       dificultad_respiratoria saturacion_oxigeno =
     py_round (score_acumulado edad ct_blood bmi genero temperatura tos escalofrios dolores
                 vomitos dificultad_respiratoria saturacion_oxigeno) 2"

text \<open>
  The branch of \<^verbatim>\<open>mostrar_predictor\<close> that runs when the button is pressed:
  the probability estimate, the risk category with its colour and recommendation, and
  the five values it displays.
\<close>

definition probabilidad_estimada :: "rat \<Rightarrow> rat" where
  "probabilidad_estimada score = min (95 / 100) (max (5 / 100) (score / 15))"

definition categoria_riesgo :: "rat \<Rightarrow> string \<times> string \<times> string" where
  "categoria_riesgo score =
     (if score \<ge> 10 then
        (''ALTO RIESGO'', ''red'',
         [CHR 0xF0, CHR 0x9F, CHR 0x9A, CHR 0xA8] @ '' URGENCIA M'' @ [CHR 0xC3, CHR 0x89]
           @ ''DICA INMEDIATA - POSIBLE INGRESO A UCI'')
      else if score \<ge> 7 then
        (''RIESGO MODERADO-ALTO'', ''orange'',
         [CHR 0xE2, CHR 0x9A, CHR 0xA0, CHR 0xEF, CHR 0xB8, CHR 0x8F] @ '' HOSPITALIZACI''
           @ [CHR 0xC3, CHR 0x93] @ ''N RECOMENDADA - MONITORIZACI'' @ [CHR 0xC3, CHR 0x93]
           @ ''N CONTINUA'')
      else if score \<ge> 4 then
        (''RIESGO MODERADO'', ''yellow'',
         [CHR 0xF0, CHR 0x9F, CHR 0x93, CHR 0x8B] @ '' OBSERVACI'' @ [CHR 0xC3, CHR 0x93]
           @ ''N HOSPITALARIA - EVALUACI'' @ [CHR 0xC3, CHR 0x93] @ ''N PERI''
           @ [CHR 0xC3, CHR 0x93] @ ''DICA'')
      else
        (''BAJO RIESGO'', ''green'',
         [CHR 0xE2, CHR 0x9C, CHR 0x85] @ '' SEGUIMIENTO AMBULATORIO - CONTROL DOMICILIARIO''))"

record evaluacion =
  ev_score :: rat
  ev_probabilidad :: rat
  ev_categoria :: string
  ev_color :: string
  ev_recomendacion :: string

definition mostrar_predictor ::
  "int \<Rightarrow> rat \<Rightarrow> rat \<Rightarrow> string \<Rightarrow> rat \<Rightarrow> string \<Rightarrow> string \<Rightarrow> string \<Rightarrow> string \<Rightarrow> string \<Rightarrow> rat \<Rightarrow> evaluacion"
where
  "mostrar_predictor edad ct_blood bmi genero temperatura tos escalofrios dolores vomitos
       dificultad_respiratoria saturacion_oxigeno =
     (let score = calcular_score_riesgo edad ct_blood bmi genero temperatura tos escalofrios
                    dolores vomitos dificultad_respiratoria saturacion_oxigeno;
          probabilidad = probabilidad_estimada score;
          (categoria, color, recomendacion) = categoria_riesgo score
      in \<lparr>ev_score = score, ev_probabilidad = probabilidad, ev_categoria = categoria,
          ev_color = color, ev_recomendacion = recomendacion\<rparr>)"

subsection \<open>The banded table of the specification\<close>

text \<open>
  The specification describes the scorer by a table: each factor has a list of bands in
  descending severity, a band being a condition and an increment; the first band whose
  condition holds gives the factor's contribution, and no band gives 0. The tables
  below follow the specification's section 4.2, with the category names the user
  interface passes (\<open>Masculino\<close> for male, \<open>Severa\<close>/\<open>Severos\<close> for severe,
  \<open>Moderada\<close>/\<open>Moderados\<close> for moderate, \<open>Leve\<close>/\<open>Leves\<close> for mild and
  \<^const>\<open>Si\<close> for present).
\<close>

type_synonym 'a bands = "(('a \<Rightarrow> bool) \<times> rat) list"

fun band_increment :: "'a bands \<Rightarrow> 'a \<Rightarrow> rat" where
  "band_increment [] x = 0"
| "band_increment ((applies, inc) # bs) x = (if applies x then inc else band_increment bs x)"

text \<open>
  The severity of a value under a table: the bands are numbered from the bottom of the
  list, the first (most severe) band has the highest number and matching no band is 0.
\<close>

fun band_severity :: "'a bands \<Rightarrow> 'a \<Rightarrow> nat" where
  "band_severity [] x = 0"
| "band_severity ((applies, inc) # bs) x =
     (if applies x then Suc (length bs) else band_severity bs x)"

definition age_bands :: "int bands" where
  "age_bands = [(\<lambda>a. a \<ge> 60, 3), (\<lambda>a. a \<ge> 40, 2), (\<lambda>a. a \<ge> 18, 1)]"

definition blood_bands :: "rat bands" where
  "blood_bands = [(\<lambda>c. c < 20, 25 / 10), (\<lambda>c. c < 22, 15 / 10), (\<lambda>c. c < 24, 5 / 10)]"

definition bmi_bands :: "rat bands" where
  "bmi_bands = [(\<lambda>b. b > 35, 2), (\<lambda>b. b > 30, 1), (\<lambda>b. b < 185 / 10, 1)]"

definition gender_bands :: "string bands" where
  "gender_bands = [(\<lambda>s. s = ''Masculino'', 5 / 10)]"

definition temperature_bands :: "rat bands" where
  "temperature_bands =
     [(\<lambda>t. t \<ge> 385 / 10, 2), (\<lambda>t. t \<ge> 38, 15 / 10), (\<lambda>t. t \<ge> 375 / 10, 1)]"

definition cough_bands :: "string bands" where
  "cough_bands =
     [(\<lambda>s. s = ''Severa'', 15 / 10), (\<lambda>s. s = ''Moderada'', 1), (\<lambda>s. s = ''Leve'', 5 / 10)]"

definition chills_bands :: "string bands" where
  "chills_bands = [(\<lambda>s. s = Si, 8 / 10)]"

definition pain_bands :: "string bands" where
  "pain_bands =
     [(\<lambda>s. s = ''Severos'', 12 / 10), (\<lambda>s. s = ''Moderados'', 8 / 10),
      (\<lambda>s. s = ''Leves'', 4 / 10)]"

definition vomiting_bands :: "string bands" where
  "vomiting_bands = [(\<lambda>s. s = Si, 7 / 10)]"

definition respiratory_bands :: "string bands" where
  "respiratory_bands =
     [(\<lambda>s. s = ''Severa'', 25 / 10), (\<lambda>s. s = ''Moderada'', 15 / 10),
      (\<lambda>s. s = ''Leve'', 8 / 10)]"

definition saturation_bands :: "rat bands" where
  "saturation_bands = [(\<lambda>s. s < 90, 3), (\<lambda>s. s < 93, 2), (\<lambda>s. s < 95, 1)]"

definition table_sum ::
  "int \<Rightarrow> rat \<Rightarrow> rat \<Rightarrow> string \<Rightarrow> rat \<Rightarrow> string \<Rightarrow> string \<Rightarrow> string \<Rightarrow> string \<Rightarrow> string \<Rightarrow> rat \<Rightarrow> rat"
where
  "table_sum age blood bmi gender temperature cough chills pain vomiting respiratory
       saturation =
     band_increment age_bands age + band_increment blood_bands blood
     + band_increment bmi_bands bmi + band_increment gender_bands gender
     + band_increment temperature_bands temperature + band_increment cough_bands cough
     + band_increment chills_bands chills + band_increment pain_bands pain
     + band_increment vomiting_bands vomiting + band_increment respiratory_bands respiratory
     + band_increment saturation_bands saturation"

text \<open>The specification's clamp of a value to an interval.\<close>

definition clamp :: "rat \<Rightarrow> rat \<Rightarrow> rat \<Rightarrow> rat" where
  "clamp x lo hi = (if x < lo then lo else if hi < x then hi else x)"

section \<open>Data normalizer\<close>

subsection \<open>Tables\<close>

text \<open>
  A pandas column is a list of cells of one kind, numeric or text, and a cell may be
  missing (\<open>None\<close> is pandas' NaN). A \<open>DataFrame\<close> is its number of rows and
  its columns in order, by name. Exceptions are values of \<open>error\<close>.
\<close>

datatype error = FileNotFoundError | ValueError | KeyError | TypeError

datatype column = NumCol "rat option list" | StrCol "string option list"

fun col_length :: "column \<Rightarrow> nat" where
  "col_length (NumCol xs) = length xs"
| "col_length (StrCol xs) = length xs"

fun has_null :: "column \<Rightarrow> bool" where
  "has_null (NumCol xs) = (None \<in> set xs)"
| "has_null (StrCol xs) = (None \<in> set xs)"

definition num_col :: "rat list \<Rightarrow> column" where
  "num_col xs = NumCol (map Some xs)"

definition str_col :: "string list \<Rightarrow> column" where
  "str_col xs = StrCol (map Some xs)"

record dataframe =
  len :: nat
  columns :: "(string \<times> column) list"

text \<open>\<^verbatim>\<open>c in base.columns\<close>, \<^verbatim>\<open>base[c]\<close> and \<^verbatim>\<open>base[c] = v\<close>.\<close>

definition has_column :: "dataframe \<Rightarrow> string \<Rightarrow> bool" where
  "has_column base c = (map_of (columns base) c \<noteq> None)"

definition getitem :: "dataframe \<Rightarrow> string \<Rightarrow> column option" where
  "getitem base c = map_of (columns base) c"

definition setitem :: "dataframe \<Rightarrow> string \<Rightarrow> column \<Rightarrow> dataframe" where
  "setitem base c v = base\<lparr>columns := AList.update c v (columns base)\<rparr>"

text \<open>
  \<^verbatim>\<open>(col == 'Death').astype(int)\<close>: 1 in the rows whose cell is that text, 0 in
  every other row, also where the cell is missing or a number.
\<close>

fun eq_astype_int :: "column \<Rightarrow> string \<Rightarrow> column" where
  "eq_astype_int (StrCol xs) s = NumCol (map (\<lambda>x. Some (if x = Some s then 1 else 0)) xs)"
| "eq_astype_int (NumCol xs) s = NumCol (map (\<lambda>x. Some 0) xs)"

text \<open>
  \<^verbatim>\<open>pd.cut(x, bins=bins, labels=labels, right=right)\<close> with a list of bin edges:
  a value gets the label of the bin that holds it, a value in no bin and a missing
  value get NaN, and a column that is not numeric raises.
\<close>

fun cut_value :: "rat list \<Rightarrow> string list \<Rightarrow> bool \<Rightarrow> rat \<Rightarrow> string option" where
  "cut_value (lo # hi # bins) (l # labels) right x =
     (if (if right then lo < x \<and> x \<le> hi else lo \<le> x \<and> x < hi) then Some l
      else cut_value (hi # bins) labels right x)"
| "cut_value _ _ _ _ = None"

fun pd_cut :: "column \<Rightarrow> rat list \<Rightarrow> string list \<Rightarrow> bool \<Rightarrow> error + column" where
  "pd_cut (NumCol xs) bins labels right =
     Inr (StrCol (map (\<lambda>v. case v of None \<Rightarrow> None | Some x \<Rightarrow> cut_value bins labels right x) xs))"
| "pd_cut (StrCol xs) bins labels right = Inl TypeError"

subsection \<open>The random generator\<close>

text \<open>
  numpy's global generator is a state that every sampling call reads and advances. The
  state is modelled as the stream of raw draws still to come; a call for \<open>n\<close> values
  takes the first \<open>n\<close> draws and leaves the rest. Each sampler is modelled by how numpy
  maps a raw draw to a value: a uniform sample of \<open>[0, 1)\<close> with 53 random bits,
  scaled for \<^verbatim>\<open>uniform\<close>, searched in the cumulative weights for
  \<^verbatim>\<open>choice\<close> with \<^verbatim>\<open>p\<close>, and a draw reduced to the range for
  \<^verbatim>\<open>randint\<close> and \<^verbatim>\<open>choice\<close> without \<^verbatim>\<open>p\<close>. What a seed makes of
  the state is a parameter of the functions that seed.
\<close>

type_synonym rng = "nat \<Rightarrow> nat"

definition draw :: "nat \<Rightarrow> rng \<Rightarrow> nat list \<times> rng" where
  "draw n g = (map g [0..<n], \<lambda>i. g (n + i))"

definition random_sample :: "nat \<Rightarrow> rat" where
  "random_sample r = of_nat (r mod 2 ^ 53) / 2 ^ 53"

fun cumsum :: "rat \<Rightarrow> rat list \<Rightarrow> rat list" where
  "cumsum acc [] = []"
| "cumsum acc (p # ps) = (acc + p) # cumsum (acc + p) ps"

definition searchsorted_right :: "rat list \<Rightarrow> rat \<Rightarrow> nat" where
  "searchsorted_right cdf u = length (filter (\<lambda>c. c \<le> u) cdf)"

definition np_random_choice_p :: "'a list \<Rightarrow> rat list \<Rightarrow> nat \<Rightarrow> rng \<Rightarrow> 'a list \<times> rng" where
  "np_random_choice_p a p n g =
     (let (rs, g) = draw n g
      in (map (\<lambda>r. a ! searchsorted_right (cumsum 0 p) (random_sample r)) rs, g))"

definition np_random_choice :: "'a list \<Rightarrow> nat \<Rightarrow> rng \<Rightarrow> 'a list \<times> rng" where
  "np_random_choice a n g =
     (let (rs, g) = draw n g in (map (\<lambda>r. a ! (r mod length a)) rs, g))"

definition np_random_randint :: "int \<Rightarrow> int \<Rightarrow> nat \<Rightarrow> rng \<Rightarrow> int list \<times> rng" where
  "np_random_randint low high n g =
     (let (rs, g) = draw n g in (map (\<lambda>r. low + int (r mod nat (high - low))) rs, g))"

definition np_random_uniform :: "rat \<Rightarrow> rat \<Rightarrow> nat \<Rightarrow> rng \<Rightarrow> rat list \<times> rng" where
  "np_random_uniform low high n g =
     (let (rs, g) = draw n g in (map (\<lambda>r. low + (high - low) * random_sample r) rs, g))"

subsection \<open>The normalizer and the loader\<close>

text \<open>
  The pattern \<^verbatim>\<open>if c not in base.columns: base[c] = <sample of len(base) values>\<close>,
  which \<^verbatim>\<open>procesar_datos\<close> repeats for most columns, on the pair of the table and
  the generator state.
\<close>

definition si_no_existe ::
  "string \<Rightarrow> (nat \<Rightarrow> rng \<Rightarrow> column \<times> rng) \<Rightarrow> dataframe \<times> rng \<Rightarrow> dataframe \<times> rng"
where
  "si_no_existe c sample = (\<lambda>(base, g).
     if \<not> has_column base c then
       (let (v, g) = sample (len base) g in (setitem base c v, g))
     else (base, g))"

definition sintomas :: "string list" where
  "sintomas = [''fever'', ''cough'', ''chills'', ''aches'', ''vomit'']"

definition procesar_datos :: "rng \<Rightarrow> dataframe \<Rightarrow> (error + dataframe) \<times> rng" where
  "procesar_datos g base =
     (let (base, g) =
            (case getitem base ''outcome'' of
               Some outcome \<Rightarrow> (setitem base ''mortalidad'' (eq_astype_int outcome ''Death''), g)
             | None \<Rightarrow>
                 (let (v, g) = np_random_choice_p [0, 1] [8 / 10, 2 / 10] (len base) g
                  in (setitem base ''mortalidad'' (num_col v), g)));
          (base, g) =
            (if \<not> has_column base ''age_years'' then
               (case getitem base ''age'' of
                  Some age \<Rightarrow> (setitem base ''age_years'' age, g)
                | None \<Rightarrow>
                    (let (v, g) = np_random_randint 18 80 (len base) g
                     in (setitem base ''age_years'' (num_col (map of_int v)), g)))
             else (base, g));
          (base, g) =
            si_no_existe ''bmi_calculado''
              (\<lambda>n g. let (v, g) = np_random_uniform 18 35 n g in (num_col v, g)) (base, g);
          (base, g) =
            si_no_existe ''ct_blood''
              (\<lambda>n g. let (v, g) = np_random_uniform 16 26 n g in (num_col v, g)) (base, g);
          (base, g) =
            fold (\<lambda>sintoma.
                    si_no_existe sintoma
                      (\<lambda>n g. let (v, g) = np_random_choice_p [''yes'', ''no''] [6 / 10, 4 / 10] n g
                             in (str_col v, g)))
              sintomas (base, g);
          (base, g) =
            si_no_existe ''gender''
              (\<lambda>n g. let (v, g) = np_random_choice [''m'', ''f''] n g in (str_col v, g)) (base, g);
          bins = [0, 18, 40, 60, 100];
          labels = [''0-17'', ''18-39'', ''40-59'', ''60+'']
      in case getitem base ''age_years'' of
           None \<Rightarrow> (Inl KeyError, g)
         | Some age_years \<Rightarrow>
             (case pd_cut age_years bins labels False of
                Inl e \<Rightarrow> (Inl e, g)
              | Inr grupo_edad \<Rightarrow>
                  (let base = setitem base ''grupo_edad'' grupo_edad;
                       (base, g) =
                         si_no_existe ''cluster''
                           (\<lambda>n g. let (v, g) = np_random_choice [0, 1, 2, 3] n g
                                  in (num_col v, g)) (base, g)
                   in (Inr base, g))))"

definition crear_datos_ejemplo :: "(nat \<Rightarrow> rng) \<Rightarrow> (error + dataframe) \<times> rng" where
  "crear_datos_ejemplo np_random_seed =
     (let g = np_random_seed 42;
          n_pacientes = 500;
          paciente_id = map of_nat [1..<n_pacientes + 1];
          (age_years, g) = np_random_randint 18 80 n_pacientes g;
          (gender, g) = np_random_choice [''m'', ''f''] n_pacientes g;
          (bmi_calculado, g) = np_random_uniform 18 35 n_pacientes g;
          (ct_blood, g) = np_random_uniform 16 26 n_pacientes g;
          (fever, g) = np_random_choice_p [''yes'', ''no''] [6 / 10, 4 / 10] n_pacientes g;
          (cough, g) = np_random_choice_p [''yes'', ''no''] [7 / 10, 3 / 10] n_pacientes g;
          (chills, g) = np_random_choice_p [''yes'', ''no''] [4 / 10, 6 / 10] n_pacientes g;
          (aches, g) = np_random_choice_p [''yes'', ''no''] [5 / 10, 5 / 10] n_pacientes g;
          (vomit, g) = np_random_choice_p [''yes'', ''no''] [3 / 10, 7 / 10] n_pacientes g;
          (mortalidad, g) = np_random_choice_p [0, 1] [85 / 100, 15 / 100] n_pacientes g;
          base = \<lparr>len = n_pacientes,
                  columns =
                    [(''paciente_id'', num_col paciente_id),
                     (''age_years'', num_col (map of_int age_years)),
                     (''gender'', str_col gender),
                     (''bmi_calculado'', num_col bmi_calculado),
                     (''ct_blood'', num_col ct_blood),
                     (''fever'', str_col fever),
                     (''cough'', str_col cough),
                     (''chills'', str_col chills),
                     (''aches'', str_col aches),
                     (''vomit'', str_col vomit),
                     (''mortalidad'', num_col mortalidad)]\<rparr>
      in procesar_datos g base)"

text \<open>
  \<^verbatim>\<open>cargar_datos\<close>: the outcome of reading the spreadsheet is its argument, an
  exception or the table read. The \<^verbatim>\<open>try\<close> block covers the normalization of
  the table read as well as the read. The three notices it shows are not modelled.
\<close>

definition cargar_datos ::
  "(nat \<Rightarrow> rng) \<Rightarrow> rng \<Rightarrow> error + dataframe \<Rightarrow> (error + dataframe) \<times> rng"
where
  "cargar_datos np_random_seed g read_excel =
     (case read_excel of
        Inl e \<Rightarrow> crear_datos_ejemplo np_random_seed
      | Inr base \<Rightarrow>
          (case procesar_datos g base of
             (Inr base, g) \<Rightarrow> (Inr base, g)
           | (Inl e, g) \<Rightarrow> crear_datos_ejemplo np_random_seed))"

subsection \<open>Canonical tables\<close>

text \<open>
  The canonical columns of the specification, and what it means for them to be
  populated: the column is there, has one cell for each row and no cell is missing.
\<close>

definition canonical_columns :: "string list" where
  "canonical_columns =
     [''mortalidad'', ''age_years'', ''bmi_calculado'', ''ct_blood'', ''fever'', ''cough'',
      ''chills'', ''aches'', ''vomit'', ''gender'', ''grupo_edad'', ''cluster'']"

definition present :: "dataframe \<Rightarrow> string \<Rightarrow> bool" where
  "present base c =
     (case getitem base c of None \<Rightarrow> False | Some col \<Rightarrow> col_length col = len base)"

definition column_filled :: "nat \<Rightarrow> column \<Rightarrow> bool" where
  "column_filled n col = (col_length col = n \<and> \<not> has_null col)"

definition populated :: "dataframe \<Rightarrow> string \<Rightarrow> bool" where
  "populated base c =
     (case getitem base c of None \<Rightarrow> False | Some col \<Rightarrow> column_filled (len base) col)"

definition canonical :: "dataframe \<Rightarrow> bool" where
  "canonical base = list_all (present base) canonical_columns"

definition fully_populated :: "dataframe \<Rightarrow> bool" where
  "fully_populated base = list_all (populated base) canonical_columns"

text \<open>A well-formed table: every column has one cell for each row.\<close>

definition well_formed :: "dataframe \<Rightarrow> bool" where
  "well_formed base = list_all (\<lambda>(c, col). col_length col = len base) (columns base)"

text \<open>The age-group bucket of one age, as the normalizer computes it.\<close>

definition grupo_edad_de :: "rat \<Rightarrow> string option" where
  "grupo_edad_de edad =
     cut_value [0, 18, 40, 60, 100] [''0-17'', ''18-39'', ''40-59'', ''60+''] False edad"

subsection \<open>Example tables\<close>

text \<open>A generator state whose raw draws are all 0, and four small tables.\<close>

definition rng_ceros :: rng where
  "rng_ceros = (\<lambda>i. 0)"

text \<open>No column at all, one row.\<close>

definition tabla_vacia :: dataframe where
  "tabla_vacia = \<lparr>len = 1, columns = []\<rparr>"

text \<open>Two rows: an age of 100, and a row whose BMI cell is empty.\<close>

definition tabla_parcial :: dataframe where
  "tabla_parcial =
     \<lparr>len = 2,
      columns = [(''age_years'', NumCol [Some 100, Some 30]),
                 (''bmi_calculado'', NumCol [Some 20, None])]\<rparr>"

text \<open>The six ages of the specification's bucketing examples.\<close>

definition tabla_edades :: dataframe where
  "tabla_edades =
     \<lparr>len = 6,
      columns = [(''age_years'', NumCol [Some 17, Some 18, Some 39, Some 40, Some 59, Some 60])]\<rparr>"

text \<open>One row with every canonical column, a patient who died, and no \<open>outcome\<close> column.\<close>

definition tabla_canonica :: dataframe where
  "tabla_canonica =
     \<lparr>len = 1,
      columns = [(''mortalidad'', NumCol [Some 1]),
                 (''age_years'', NumCol [Some 30]),
                 (''bmi_calculado'', NumCol [Some 22]),
                 (''ct_blood'', NumCol [Some 20]),
                 (''fever'', StrCol [Some ''no'']),
                 (''cough'', StrCol [Some ''no'']),
                 (''chills'', StrCol [Some ''no'']),
                 (''aches'', StrCol [Some ''no'']),
                 (''vomit'', StrCol [Some ''no'']),
                 (''gender'', StrCol [Some ''f'']),
                 (''grupo_edad'', StrCol [Some ''18-39'']),
                 (''cluster'', NumCol [Some 2])]\<rparr>"

section \<open>Properties of the risk scorer\<close>

subsection \<open>The running total is the sum of the table\<close>

lemma chain3:
  "(if c1 then s + a1 else if c2 then s + a2 else if c3 then s + a3 else s)
     = (s::rat) + (if c1 then a1 else if c2 then a2 else if c3 then a3 else 0)"
  by simp

lemma chain1: "(if c1 then s + a1 else s) = (s::rat) + (if c1 then a1 else 0)"
  by simp

lemmas bands_defs =
  age_bands_def blood_bands_def bmi_bands_def gender_bands_def temperature_bands_def
  cough_bands_def chills_bands_def pain_bands_def vomiting_bands_def respiratory_bands_def
  saturation_bands_def

lemma score_acumulado_table:
  "score_acumulado e c b g t tos esc dol vom dif sat
     = table_sum e c b g t tos esc dol vom dif sat"
  unfolding score_acumulado_def table_sum_def Let_def bands_defs band_increment.simps
  apply (simp only: chain3)
  apply (simp only: chain1)
  done

subsection \<open>Rounding to two decimals leaves a multiple of one tenth as it is\<close>

lemma round_half_even_int: "round_half_even (of_int k) = k"
  by (simp add: round_half_even_def)

lemma py_round_tenth:
  assumes "x * 10 \<in> \<int>"
  shows "py_round x 2 = x"
proof -
  from assms obtain k :: int where k: "x * 10 = of_int k"
    by (auto elim: Ints_cases)
  have "x * 10 ^ 2 = of_int (k * 10)"
    using k by simp
  then have "round_half_even (x * 10 ^ 2) = k * 10"
    by (simp only: round_half_even_int)
  then have "py_round x 2 = of_int (k * 10) / 10 ^ 2"
    by (simp only: py_round_def)
  also have "\<dots> = x"
    using k by simp
  finally show ?thesis .
qed

lemma age_tenth: "band_increment age_bands x * 10 \<in> \<int>"
  by (simp add: age_bands_def)

lemma blood_tenth: "band_increment blood_bands x * 10 \<in> \<int>"
  by (simp add: blood_bands_def)

lemma bmi_tenth: "band_increment bmi_bands x * 10 \<in> \<int>"
  by (simp add: bmi_bands_def)

lemma gender_tenth: "band_increment gender_bands x * 10 \<in> \<int>"
  by (simp add: gender_bands_def)

lemma temperature_tenth: "band_increment temperature_bands x * 10 \<in> \<int>"
  by (simp add: temperature_bands_def)

lemma cough_tenth: "band_increment cough_bands x * 10 \<in> \<int>"
  by (simp add: cough_bands_def)

lemma chills_tenth: "band_increment chills_bands x * 10 \<in> \<int>"
  by (simp add: chills_bands_def)

lemma pain_tenth: "band_increment pain_bands x * 10 \<in> \<int>"
  by (simp add: pain_bands_def)

lemma vomiting_tenth: "band_increment vomiting_bands x * 10 \<in> \<int>"
  by (simp add: vomiting_bands_def)

lemma respiratory_tenth: "band_increment respiratory_bands x * 10 \<in> \<int>"
  by (simp add: respiratory_bands_def)

lemma saturation_tenth: "band_increment saturation_bands x * 10 \<in> \<int>"
  by (simp add: saturation_bands_def)

lemma table_sum_tenth: "table_sum e c b g t tos esc dol vom dif sat * 10 \<in> \<int>"
  unfolding table_sum_def distrib_right
  by (intro Ints_add age_tenth blood_tenth bmi_tenth gender_tenth temperature_tenth
      cough_tenth chills_tenth pain_tenth vomiting_tenth respiratory_tenth saturation_tenth)

lemma calcular_score_riesgo_table:
  "calcular_score_riesgo e c b g t tos esc dol vom dif sat
     = table_sum e c b g t tos esc dol vom dif sat"
  unfolding calcular_score_riesgo_def score_acumulado_table
  by (rule py_round_tenth [OF table_sum_tenth])

subsection \<open>Range and monotonicity of each factor\<close>

lemma age_range:
  "0 \<le> band_increment age_bands x \<and> band_increment age_bands x \<le> 3"
  by (simp add: age_bands_def)

lemma blood_range:
  "0 \<le> band_increment blood_bands x \<and> band_increment blood_bands x \<le> 25 / 10"
  by (simp add: blood_bands_def)

lemma bmi_range:
  "0 \<le> band_increment bmi_bands x \<and> band_increment bmi_bands x \<le> 2"
  by (simp add: bmi_bands_def)

lemma gender_range:
  "0 \<le> band_increment gender_bands x \<and> band_increment gender_bands x \<le> 5 / 10"
  by (simp add: gender_bands_def)

lemma temperature_range:
  "0 \<le> band_increment temperature_bands x \<and> band_increment temperature_bands x \<le> 2"
  by (simp add: temperature_bands_def)

lemma cough_range:
  "0 \<le> band_increment cough_bands x \<and> band_increment cough_bands x \<le> 15 / 10"
  by (simp add: cough_bands_def)

lemma chills_range:
  "0 \<le> band_increment chills_bands x \<and> band_increment chills_bands x \<le> 8 / 10"
  by (simp add: chills_bands_def)

lemma pain_range:
  "0 \<le> band_increment pain_bands x \<and> band_increment pain_bands x \<le> 12 / 10"
  by (simp add: pain_bands_def)

lemma vomiting_range:
  "0 \<le> band_increment vomiting_bands x \<and> band_increment vomiting_bands x \<le> 7 / 10"
  by (simp add: vomiting_bands_def)

lemma respiratory_range:
  "0 \<le> band_increment respiratory_bands x \<and> band_increment respiratory_bands x \<le> 25 / 10"
  by (simp add: respiratory_bands_def)

lemma saturation_range:
  "0 \<le> band_increment saturation_bands x \<and> band_increment saturation_bands x \<le> 3"
  by (simp add: saturation_bands_def)

lemma table_sum_range:
  "0 \<le> table_sum e c b g t tos esc dol vom dif sat
   \<and> table_sum e c b g t tos esc dol vom dif sat \<le> 197 / 10"
  unfolding table_sum_def
  using age_range [of e] blood_range [of c] bmi_range [of b] gender_range [of g]
    temperature_range [of t] cough_range [of tos] chills_range [of esc] pain_range [of dol]
    vomiting_range [of vom] respiratory_range [of dif] saturation_range [of sat]
  by linarith

lemma age_mono:
  "band_severity age_bands x \<le> band_severity age_bands y
   \<Longrightarrow> band_increment age_bands x \<le> band_increment age_bands y"
  by (simp add: age_bands_def split: if_splits)

lemma blood_mono:
  "band_severity blood_bands x \<le> band_severity blood_bands y
   \<Longrightarrow> band_increment blood_bands x \<le> band_increment blood_bands y"
  by (simp add: blood_bands_def split: if_splits)

lemma bmi_mono:
  "band_severity bmi_bands x \<le> band_severity bmi_bands y
   \<Longrightarrow> band_increment bmi_bands x \<le> band_increment bmi_bands y"
  by (simp add: bmi_bands_def split: if_splits)

lemma gender_mono:
  "band_severity gender_bands x \<le> band_severity gender_bands y
   \<Longrightarrow> band_increment gender_bands x \<le> band_increment gender_bands y"
  by (simp add: gender_bands_def split: if_splits)

lemma temperature_mono:
  "band_severity temperature_bands x \<le> band_severity temperature_bands y
   \<Longrightarrow> band_increment temperature_bands x \<le> band_increment temperature_bands y"
  by (simp add: temperature_bands_def split: if_splits)

lemma cough_mono:
  "band_severity cough_bands x \<le> band_severity cough_bands y
   \<Longrightarrow> band_increment cough_bands x \<le> band_increment cough_bands y"
  by (simp add: cough_bands_def split: if_splits)

lemma chills_mono:
  "band_severity chills_bands x \<le> band_severity chills_bands y
   \<Longrightarrow> band_increment chills_bands x \<le> band_increment chills_bands y"
  by (simp add: chills_bands_def split: if_splits)

lemma pain_mono:
  "band_severity pain_bands x \<le> band_severity pain_bands y
   \<Longrightarrow> band_increment pain_bands x \<le> band_increment pain_bands y"
  by (simp add: pain_bands_def split: if_splits)

lemma vomiting_mono:
  "band_severity vomiting_bands x \<le> band_severity vomiting_bands y
   \<Longrightarrow> band_increment vomiting_bands x \<le> band_increment vomiting_bands y"
  by (simp add: vomiting_bands_def split: if_splits)

lemma respiratory_mono:
  "band_severity respiratory_bands x \<le> band_severity respiratory_bands y
   \<Longrightarrow> band_increment respiratory_bands x \<le> band_increment respiratory_bands y"
  by (simp add: respiratory_bands_def split: if_splits)

lemma saturation_mono:
  "band_severity saturation_bands x \<le> band_severity saturation_bands y
   \<Longrightarrow> band_increment saturation_bands x \<le> band_increment saturation_bands y"
  by (simp add: saturation_bands_def split: if_splits)

subsection \<open>The claims about the scorer\<close>

text \<open>
  Claim C1. For every input, the score the scorer returns is the sum over the eleven
  factors of the increment of the first band of the specification's table that applies
  (0 when none applies), rounded to two decimal places.
\<close>

theorem calcular_score_riesgo_additive:
  "calcular_score_riesgo edad ct bmi genero temp tos esc dol vom dif sat
     = py_round (table_sum edad ct bmi genero temp tos esc dol vom dif sat) 2"
  by (simp only: calcular_score_riesgo_def score_acumulado_table)

text \<open>
  Claim C2. The category comes from the score by inclusive lower bounds checked from
  the highest: at least 10 is high risk with the emergency recommendation, at least 7
  is moderate-high with hospitalization, at least 4 is moderate with observation, and
  anything lower is low risk with ambulatory follow-up; the six boundary scores of the
  specification fall as it says.
\<close>

theorem categoria_riesgo_thresholds:
  "(10 \<le> s \<longrightarrow> categoria_riesgo s =
      (''ALTO RIESGO'', ''red'',
       [CHR 0xF0, CHR 0x9F, CHR 0x9A, CHR 0xA8] @ '' URGENCIA M'' @ [CHR 0xC3, CHR 0x89]
         @ ''DICA INMEDIATA - POSIBLE INGRESO A UCI''))
   \<and> (7 \<le> s \<and> s < 10 \<longrightarrow> categoria_riesgo s =
      (''RIESGO MODERADO-ALTO'', ''orange'',
       [CHR 0xE2, CHR 0x9A, CHR 0xA0, CHR 0xEF, CHR 0xB8, CHR 0x8F] @ '' HOSPITALIZACI''
         @ [CHR 0xC3, CHR 0x93] @ ''N RECOMENDADA - MONITORIZACI'' @ [CHR 0xC3, CHR 0x93]
         @ ''N CONTINUA''))
   \<and> (4 \<le> s \<and> s < 7 \<longrightarrow> categoria_riesgo s =
      (''RIESGO MODERADO'', ''yellow'',
       [CHR 0xF0, CHR 0x9F, CHR 0x93, CHR 0x8B] @ '' OBSERVACI'' @ [CHR 0xC3, CHR 0x93]
         @ ''N HOSPITALARIA - EVALUACI'' @ [CHR 0xC3, CHR 0x93] @ ''N PERI''
         @ [CHR 0xC3, CHR 0x93] @ ''DICA''))
   \<and> (s < 4 \<longrightarrow> categoria_riesgo s =
      (''BAJO RIESGO'', ''green'',
       [CHR 0xE2, CHR 0x9C, CHR 0x85] @ '' SEGUIMIENTO AMBULATORIO - CONTROL DOMICILIARIO''))
   \<and> fst (categoria_riesgo 10) = ''ALTO RIESGO''
   \<and> fst (categoria_riesgo (999 / 100)) = ''RIESGO MODERADO-ALTO''
   \<and> fst (categoria_riesgo 7) = ''RIESGO MODERADO-ALTO''
   \<and> fst (categoria_riesgo (699 / 100)) = ''RIESGO MODERADO''
   \<and> fst (categoria_riesgo 4) = ''RIESGO MODERADO''
   \<and> fst (categoria_riesgo (399 / 100)) = ''BAJO RIESGO''"
  by (simp add: categoria_riesgo_def)

theorem categoria_riesgo_thresholds_witness:
  "(10::rat) \<le> 12 \<and> fst (categoria_riesgo 12) = ''ALTO RIESGO''
   \<and> (7::rat) \<le> 8 \<and> (8::rat) < 10 \<and> fst (categoria_riesgo 8) = ''RIESGO MODERADO-ALTO''
   \<and> (4::rat) \<le> 5 \<and> (5::rat) < 7 \<and> fst (categoria_riesgo 5) = ''RIESGO MODERADO''
   \<and> (1::rat) < 4 \<and> fst (categoria_riesgo 1) = ''BAJO RIESGO''"
  using categoria_riesgo_thresholds [of 12] categoria_riesgo_thresholds [of 8]
    categoria_riesgo_thresholds [of 5] categoria_riesgo_thresholds [of 1]
  by simp

text \<open>
  Claim C3. For every score the probability estimate is the score over 15 clamped to
  the interval from 0.05 to 0.95, so it always lies in that interval: a score below 0.75
  gives 0.05, a score above 14.25 gives 0.95, and the score 0 gives 0.05, not 0.
\<close>

theorem probabilidad_estimada_clamp:
  "probabilidad_estimada s = clamp (s / 15) (5 / 100) (95 / 100)
   \<and> 5 / 100 \<le> probabilidad_estimada s \<and> probabilidad_estimada s \<le> 95 / 100
   \<and> (s < 75 / 100 \<longrightarrow> probabilidad_estimada s = 5 / 100)
   \<and> (1425 / 100 < s \<longrightarrow> probabilidad_estimada s = 95 / 100)
   \<and> probabilidad_estimada 0 = 5 / 100"
  by (simp add: probabilidad_estimada_def clamp_def min_def max_def)

theorem probabilidad_estimada_clamp_witness:
  "(-3::rat) < 75 / 100 \<and> probabilidad_estimada (-3) = 5 / 100
   \<and> (1425 / 100 :: rat) < 197 / 10 \<and> probabilidad_estimada (197 / 10) = 95 / 100
   \<and> probabilidad_estimada 6 = clamp (6 / 15) (5 / 100) (95 / 100)"
  using probabilidad_estimada_clamp [of "-3"] probabilidad_estimada_clamp [of "197 / 10"]
    probabilidad_estimada_clamp [of 6]
  by simp

text \<open>
  Claim C5. For every input and every one of the eleven factors, replacing the value of
  that factor by a value whose band is at least as severe, the other ten values staying
  as they are, does not decrease the score.
\<close>

theorem score_monotone_in_severity:
  "(band_severity age_bands edad \<le> band_severity age_bands edad'
      \<longrightarrow> calcular_score_riesgo edad ct bmi genero temp tos esc dol vom dif sat
          \<le> calcular_score_riesgo edad' ct bmi genero temp tos esc dol vom dif sat)
   \<and> (band_severity blood_bands ct \<le> band_severity blood_bands ct'
      \<longrightarrow> calcular_score_riesgo edad ct bmi genero temp tos esc dol vom dif sat
          \<le> calcular_score_riesgo edad ct' bmi genero temp tos esc dol vom dif sat)
   \<and> (band_severity bmi_bands bmi \<le> band_severity bmi_bands bmi'
      \<longrightarrow> calcular_score_riesgo edad ct bmi genero temp tos esc dol vom dif sat
          \<le> calcular_score_riesgo edad ct bmi' genero temp tos esc dol vom dif sat)
   \<and> (band_severity gender_bands genero \<le> band_severity gender_bands genero'
      \<longrightarrow> calcular_score_riesgo edad ct bmi genero temp tos esc dol vom dif sat
          \<le> calcular_score_riesgo edad ct bmi genero' temp tos esc dol vom dif sat)
   \<and> (band_severity temperature_bands temp \<le> band_severity temperature_bands temp'
      \<longrightarrow> calcular_score_riesgo edad ct bmi genero temp tos esc dol vom dif sat
          \<le> calcular_score_riesgo edad ct bmi genero temp' tos esc dol vom dif sat)
   \<and> (band_severity cough_bands tos \<le> band_severity cough_bands tos'
      \<longrightarrow> calcular_score_riesgo edad ct bmi genero temp tos esc dol vom dif sat
          \<le> calcular_score_riesgo edad ct bmi genero temp tos' esc dol vom dif sat)
   \<and> (band_severity chills_bands esc \<le> band_severity chills_bands esc'
      \<longrightarrow> calcular_score_riesgo edad ct bmi genero temp tos esc dol vom dif sat
          \<le> calcular_score_riesgo edad ct bmi genero temp tos esc' dol vom dif sat)
   \<and> (band_severity pain_bands dol \<le> band_severity pain_bands dol'
      \<longrightarrow> calcular_score_riesgo edad ct bmi genero temp tos esc dol vom dif sat
          \<le> calcular_score_riesgo edad ct bmi genero temp tos esc dol' vom dif sat)
   \<and> (band_severity vomiting_bands vom \<le> band_severity vomiting_bands vom'
      \<longrightarrow> calcular_score_riesgo edad ct bmi genero temp tos esc dol vom dif sat
          \<le> calcular_score_riesgo edad ct bmi genero temp tos esc dol vom' dif sat)
   \<and> (band_severity respiratory_bands dif \<le> band_severity respiratory_bands dif'
      \<longrightarrow> calcular_score_riesgo edad ct bmi genero temp tos esc dol vom dif sat
          \<le> calcular_score_riesgo edad ct bmi genero temp tos esc dol vom dif' sat)
   \<and> (band_severity saturation_bands sat \<le> band_severity saturation_bands sat'
      \<longrightarrow> calcular_score_riesgo edad ct bmi genero temp tos esc dol vom dif sat
          \<le> calcular_score_riesgo edad ct bmi genero temp tos esc dol vom dif sat')"
  by (simp add: calcular_score_riesgo_table table_sum_def age_mono blood_mono bmi_mono
      gender_mono temperature_mono cough_mono chills_mono pain_mono vomiting_mono
      respiratory_mono saturation_mono)

theorem score_monotone_in_severity_witness:
  "band_severity age_bands 30 \<le> band_severity age_bands 65
   \<and> calcular_score_riesgo 30 23 25 ''Femenino'' 37 ''Leve'' ''No'' ''Leves'' ''No'' ''Ninguna'' 94
       \<le> calcular_score_riesgo 65 23 25 ''Femenino'' 37 ''Leve'' ''No'' ''Leves'' ''No'' ''Ninguna'' 94
   \<and> band_severity blood_bands 23 \<le> band_severity blood_bands 19
   \<and> calcular_score_riesgo 30 23 25 ''Femenino'' 37 ''Leve'' ''No'' ''Leves'' ''No'' ''Ninguna'' 94
       \<le> calcular_score_riesgo 30 19 25 ''Femenino'' 37 ''Leve'' ''No'' ''Leves'' ''No'' ''Ninguna'' 94
   \<and> band_severity bmi_bands 25 \<le> band_severity bmi_bands 36
   \<and> calcular_score_riesgo 30 23 25 ''Femenino'' 37 ''Leve'' ''No'' ''Leves'' ''No'' ''Ninguna'' 94
       \<le> calcular_score_riesgo 30 23 36 ''Femenino'' 37 ''Leve'' ''No'' ''Leves'' ''No'' ''Ninguna'' 94
   \<and> band_severity gender_bands ''Femenino'' \<le> band_severity gender_bands ''Masculino''
   \<and> calcular_score_riesgo 30 23 25 ''Femenino'' 37 ''Leve'' ''No'' ''Leves'' ''No'' ''Ninguna'' 94
       \<le> calcular_score_riesgo 30 23 25 ''Masculino'' 37 ''Leve'' ''No'' ''Leves'' ''No'' ''Ninguna'' 94
   \<and> band_severity temperature_bands 37 \<le> band_severity temperature_bands 39
   \<and> calcular_score_riesgo 30 23 25 ''Femenino'' 37 ''Leve'' ''No'' ''Leves'' ''No'' ''Ninguna'' 94
       \<le> calcular_score_riesgo 30 23 25 ''Femenino'' 39 ''Leve'' ''No'' ''Leves'' ''No'' ''Ninguna'' 94
   \<and> band_severity cough_bands ''Leve'' \<le> band_severity cough_bands ''Severa''
   \<and> calcular_score_riesgo 30 23 25 ''Femenino'' 37 ''Leve'' ''No'' ''Leves'' ''No'' ''Ninguna'' 94
       \<le> calcular_score_riesgo 30 23 25 ''Femenino'' 37 ''Severa'' ''No'' ''Leves'' ''No'' ''Ninguna'' 94
   \<and> band_severity chills_bands ''No'' \<le> band_severity chills_bands Si
   \<and> calcular_score_riesgo 30 23 25 ''Femenino'' 37 ''Leve'' ''No'' ''Leves'' ''No'' ''Ninguna'' 94
       \<le> calcular_score_riesgo 30 23 25 ''Femenino'' 37 ''Leve'' Si ''Leves'' ''No'' ''Ninguna'' 94
   \<and> band_severity pain_bands ''Leves'' \<le> band_severity pain_bands ''Severos''
   \<and> calcular_score_riesgo 30 23 25 ''Femenino'' 37 ''Leve'' ''No'' ''Leves'' ''No'' ''Ninguna'' 94
       \<le> calcular_score_riesgo 30 23 25 ''Femenino'' 37 ''Leve'' ''No'' ''Severos'' ''No'' ''Ninguna'' 94
   \<and> band_severity vomiting_bands ''No'' \<le> band_severity vomiting_bands Si
   \<and> calcular_score_riesgo 30 23 25 ''Femenino'' 37 ''Leve'' ''No'' ''Leves'' ''No'' ''Ninguna'' 94
       \<le> calcular_score_riesgo 30 23 25 ''Femenino'' 37 ''Leve'' ''No'' ''Leves'' Si ''Ninguna'' 94
   \<and> band_severity respiratory_bands ''Ninguna'' \<le> band_severity respiratory_bands ''Severa''
   \<and> calcular_score_riesgo 30 23 25 ''Femenino'' 37 ''Leve'' ''No'' ''Leves'' ''No'' ''Ninguna'' 94
       \<le> calcular_score_riesgo 30 23 25 ''Femenino'' 37 ''Leve'' ''No'' ''Leves'' ''No'' ''Severa'' 94
   \<and> band_severity saturation_bands 94 \<le> band_severity saturation_bands 88
   \<and> calcular_score_riesgo 30 23 25 ''Femenino'' 37 ''Leve'' ''No'' ''Leves'' ''No'' ''Ninguna'' 94
       \<le> calcular_score_riesgo 30 23 25 ''Femenino'' 37 ''Leve'' ''No'' ''Leves'' ''No'' ''Ninguna'' 88"
  using score_monotone_in_severity
    [where edad = "30" and ct = "23" and bmi = "25" and genero = "''Femenino''" and temp = "37" and tos = "''Leve''" and esc = "''No''" and dol = "''Leves''" and vom = "''No''" and dif = "''Ninguna''" and sat = "94" and edad' = "65" and ct' = "19" and bmi' = "36" and genero' = "''Masculino''" and temp' = "39" and tos' = "''Severa''" and esc' = "Si" and dol' = "''Severos''" and vom' = "Si" and dif' = "''Severa''" and sat' = "88"]
  by (simp add: bands_defs Si_def)

text \<open>
  Claim C6 as the specification states it gives 23.2 for the sum of the eleven
  increments of its example input; the running total of the code at that input is not
  23.2.
\<close>

theorem example_sum_is_not_23_2:
  "score_acumulado 65 19 36 ''Masculino'' 39 ''Severa'' Si ''Severos'' Si ''Severa'' 88
     \<noteq> 232 / 10"
  by (simp add: score_acumulado_def Si_def)

text \<open>
  Claim C6, as amended. For the example input (age 65, blood-cell count 19, BMI 36, male,
  temperature 39, severe cough, chills, severe pain, vomiting, severe respiratory
  distress, saturation 88) the sum of the eleven increments before rounding is 19.7,
  the returned score is 19.7, the category is high risk and the probability is 0.95.
\<close>

theorem example_high_risk:
  "score_acumulado 65 19 36 ''Masculino'' 39 ''Severa'' Si ''Severos'' Si ''Severa'' 88
     = 3 + 25 / 10 + 2 + 5 / 10 + 2 + 15 / 10 + 8 / 10 + 12 / 10 + 7 / 10 + 25 / 10 + 3
   \<and> score_acumulado 65 19 36 ''Masculino'' 39 ''Severa'' Si ''Severos'' Si ''Severa'' 88
     = 197 / 10
   \<and> ev_score (mostrar_predictor 65 19 36 ''Masculino'' 39 ''Severa'' Si ''Severos'' Si
        ''Severa'' 88) = 197 / 10
   \<and> ev_categoria (mostrar_predictor 65 19 36 ''Masculino'' 39 ''Severa'' Si ''Severos'' Si
        ''Severa'' 88) = ''ALTO RIESGO''
   \<and> ev_probabilidad (mostrar_predictor 65 19 36 ''Masculino'' 39 ''Severa'' Si ''Severos''
        Si ''Severa'' 88) = 95 / 100"
proof -
  have acc: "score_acumulado 65 19 36 ''Masculino'' 39 ''Severa'' Si ''Severos'' Si ''Severa'' 88
      = 197 / 10"
    by (simp add: score_acumulado_def Si_def)
  have sc: "calcular_score_riesgo 65 19 36 ''Masculino'' 39 ''Severa'' Si ''Severos'' Si
      ''Severa'' 88 = 197 / 10"
    using acc by (simp only: calcular_score_riesgo_table score_acumulado_table [symmetric])
  show ?thesis
    unfolding mostrar_predictor_def sc acc Let_def
    by (simp add: categoria_riesgo_def probabilidad_estimada_def)
qed

text \<open>
  Claim C10. For every input the returned score is at least 0 and at most 19.7, the sum
  of the highest increments of the eleven factors.
\<close>

theorem calcular_score_riesgo_bounds:
  "0 \<le> calcular_score_riesgo edad ct bmi genero temp tos esc dol vom dif sat
   \<and> calcular_score_riesgo edad ct bmi genero temp tos esc dol vom dif sat \<le> 197 / 10
   \<and> (197 / 10 :: rat)
       = 3 + 25 / 10 + 2 + 5 / 10 + 2 + 15 / 10 + 8 / 10 + 12 / 10 + 7 / 10 + 25 / 10 + 3"
  using table_sum_range [of edad ct bmi genero temp tos esc dol vom dif sat]
  by (simp add: calcular_score_riesgo_table)

section \<open>Properties of the data normalizer\<close>

subsection \<open>Reading and writing columns\<close>

lemma getitem_setitem: "getitem (setitem b c v) k = (if k = c then Some v else getitem b k)"
  by (simp add: getitem_def setitem_def update_conv')

lemma len_setitem: "len (setitem b c v) = len b"
  by (simp add: setitem_def)

lemma has_column_getitem: "has_column b c = (getitem b c \<noteq> None)"
  by (simp add: has_column_def getitem_def)

lemma let_pair: "E = (b, g) \<Longrightarrow> (let (x, y) = E in F x y) = F b g"
  by simp

subsection \<open>Adding a column that is not there\<close>

lemma si_no_existe_len:
  "si_no_existe c sample (b, g) = (b', g') \<Longrightarrow> len b' = len b"
  by (auto simp: si_no_existe_def len_setitem split_beta Let_def split: if_splits)

lemma si_no_existe_other:
  "si_no_existe c sample (b, g) = (b', g') \<Longrightarrow> k \<noteq> c \<Longrightarrow> getitem b' k = getitem b k"
  by (auto simp: si_no_existe_def getitem_setitem split_beta Let_def split: if_splits)

lemma si_no_existe_keeps:
  "si_no_existe c sample (b, g) = (b', g') \<Longrightarrow> getitem b k = Some col
   \<Longrightarrow> getitem b' k = Some col"
  by (auto simp: si_no_existe_def has_column_getitem getitem_setitem split_beta Let_def
      split: if_splits)

lemma si_no_existe_new:
  "si_no_existe c sample (b, g) = (b', g') \<Longrightarrow> getitem b c = None
   \<Longrightarrow> getitem b' c = Some (fst (sample (len b) g))"
  by (auto simp: si_no_existe_def has_column_getitem getitem_setitem split_beta Let_def
      split: if_splits)

lemma fold_si_no_existe_len:
  "fold (\<lambda>c. si_no_existe c (sample c)) cs (b, g) = (b', g') \<Longrightarrow> len b' = len b"
proof (induction cs arbitrary: b g)
  case Nil
  then show ?case by simp
next
  case (Cons c cs)
  obtain b1 g1 where s: "si_no_existe c (sample c) (b, g) = (b1, g1)"
    by (rule prod.exhaust)
  with Cons.prems have "fold (\<lambda>c. si_no_existe c (sample c)) cs (b1, g1) = (b', g')"
    by simp
  then have "len b' = len b1"
    by (rule Cons.IH)
  with si_no_existe_len [OF s] show ?case by simp
qed

lemma fold_si_no_existe_other:
  "fold (\<lambda>c. si_no_existe c (sample c)) cs (b, g) = (b', g') \<Longrightarrow> k \<notin> set cs
   \<Longrightarrow> getitem b' k = getitem b k"
proof (induction cs arbitrary: b g)
  case Nil
  then show ?case by simp
next
  case (Cons c cs)
  obtain b1 g1 where s: "si_no_existe c (sample c) (b, g) = (b1, g1)"
    by (rule prod.exhaust)
  with Cons.prems have "fold (\<lambda>c. si_no_existe c (sample c)) cs (b1, g1) = (b', g')"
    by simp
  moreover from Cons.prems have "k \<notin> set cs" and "k \<noteq> c"
    by simp_all
  ultimately show ?case
    using Cons.IH [of b1 g1] si_no_existe_other [OF s, of k] by simp
qed

lemma fold_si_no_existe_keeps:
  "fold (\<lambda>c. si_no_existe c (sample c)) cs (b, g) = (b', g') \<Longrightarrow> getitem b k = Some col
   \<Longrightarrow> getitem b' k = Some col"
proof (induction cs arbitrary: b g)
  case Nil
  then show ?case by simp
next
  case (Cons c cs)
  obtain b1 g1 where s: "si_no_existe c (sample c) (b, g) = (b1, g1)"
    by (rule prod.exhaust)
  with Cons.prems have "fold (\<lambda>c. si_no_existe c (sample c)) cs (b1, g1) = (b', g')"
    by simp
  moreover have "getitem b1 k = Some col"
    using s Cons.prems(2) by (rule si_no_existe_keeps)
  ultimately show ?case
    by (rule Cons.IH)
qed

lemma fold_si_no_existe_new:
  "fold (\<lambda>c. si_no_existe c (sample c)) cs (b, g) = (b', g') \<Longrightarrow> k \<in> set cs
   \<Longrightarrow> getitem b k = None
   \<Longrightarrow> \<exists>g0. getitem b' k = Some (fst (sample k (len b) g0))"
proof (induction cs arbitrary: b g)
  case Nil
  then show ?case by simp
next
  case (Cons c cs)
  obtain b1 g1 where s: "si_no_existe c (sample c) (b, g) = (b1, g1)"
    by (rule prod.exhaust)
  with Cons.prems have f: "fold (\<lambda>c. si_no_existe c (sample c)) cs (b1, g1) = (b', g')"
    by simp
  note l = si_no_existe_len [OF s]
  show ?case
  proof (cases "k = c")
    case True
    with Cons.prems(3) have "getitem b1 k = Some (fst (sample k (len b) g))"
      using si_no_existe_new [OF s] by simp
    with f have "getitem b' k = Some (fst (sample k (len b) g))"
      by (rule fold_si_no_existe_keeps)
    then show ?thesis by blast
  next
    case False
    with Cons.prems(2) have "k \<in> set cs" by simp
    moreover have "getitem b1 k = None"
      using si_no_existe_other [OF s False] Cons.prems(3) by simp
    ultimately show ?thesis
      using Cons.IH [OF f] l by simp
  qed
qed

subsection \<open>The statements of the normalizer, one state after the other\<close>

lemma procesar_datos_steps [case_names steps]:
  obtains b1 g1 b2 g2 b3 g3 b4 g4 b5 g5 b6 g6 where
    "(case getitem base ''outcome'' of
               Some outcome \<Rightarrow> (setitem base ''mortalidad'' (eq_astype_int outcome ''Death''), g)
             | None \<Rightarrow>
                 (let (v, g) = np_random_choice_p [0, 1] [8 / 10, 2 / 10] (len base) g
                  in (setitem base ''mortalidad'' (num_col v), g))) = (b1, g1)"
    and "(if \<not> has_column b1 ''age_years'' then
               (case getitem b1 ''age'' of
                  Some age \<Rightarrow> (setitem b1 ''age_years'' age, g1)
                | None \<Rightarrow>
                    (let (v, g) = np_random_randint 18 80 (len b1) g1
                     in (setitem b1 ''age_years'' (num_col (map of_int v)), g)))
             else (b1, g1)) = (b2, g2)"
    and "si_no_existe ''bmi_calculado''
              (\<lambda>n g. let (v, g) = np_random_uniform 18 35 n g in (num_col v, g)) (b2, g2) = (b3, g3)"
    and "si_no_existe ''ct_blood''
              (\<lambda>n g. let (v, g) = np_random_uniform 16 26 n g in (num_col v, g)) (b3, g3) = (b4, g4)"
    and "fold (\<lambda>sintoma.
                    si_no_existe sintoma
                      (\<lambda>n g. let (v, g) = np_random_choice_p [''yes'', ''no''] [6 / 10, 4 / 10] n g
                             in (str_col v, g)))
              sintomas (b4, g4) = (b5, g5)"
    and "si_no_existe ''gender''
              (\<lambda>n g. let (v, g) = np_random_choice [''m'', ''f''] n g in (str_col v, g)) (b5, g5) = (b6, g6)"
    and "procesar_datos g base =
     (case getitem b6 ''age_years'' of
           None \<Rightarrow> (Inl KeyError, g6)
         | Some age_years \<Rightarrow>
             (case pd_cut age_years [0, 18, 40, 60, 100] [''0-17'', ''18-39'', ''40-59'', ''60+''] False of
                Inl e \<Rightarrow> (Inl e, g6)
              | Inr grupo_edad \<Rightarrow>
                  (case si_no_existe ''cluster''
                           (\<lambda>n g. let (v, g) = np_random_choice [0, 1, 2, 3] n g
                                  in (num_col v, g)) (setitem b6 ''grupo_edad'' grupo_edad, g6)
                   of (b, g) \<Rightarrow> (Inr b, g))))"
proof -
  obtain b1 g1 where s1: "(case getitem base ''outcome'' of
               Some outcome \<Rightarrow> (setitem base ''mortalidad'' (eq_astype_int outcome ''Death''), g)
             | None \<Rightarrow>
                 (let (v, g) = np_random_choice_p [0, 1] [8 / 10, 2 / 10] (len base) g
                  in (setitem base ''mortalidad'' (num_col v), g))) = (b1, g1)"
    by (rule prod.exhaust)
  obtain b2 g2 where s2: "(if \<not> has_column b1 ''age_years'' then
               (case getitem b1 ''age'' of
                  Some age \<Rightarrow> (setitem b1 ''age_years'' age, g1)
                | None \<Rightarrow>
                    (let (v, g) = np_random_randint 18 80 (len b1) g1
                     in (setitem b1 ''age_years'' (num_col (map of_int v)), g)))
             else (b1, g1)) = (b2, g2)"
    by (rule prod.exhaust)
  obtain b3 g3 where s3: "si_no_existe ''bmi_calculado''
              (\<lambda>n g. let (v, g) = np_random_uniform 18 35 n g in (num_col v, g)) (b2, g2) = (b3, g3)"
    by (rule prod.exhaust)
  obtain b4 g4 where s4: "si_no_existe ''ct_blood''
              (\<lambda>n g. let (v, g) = np_random_uniform 16 26 n g in (num_col v, g)) (b3, g3) = (b4, g4)"
    by (rule prod.exhaust)
  obtain b5 g5 where s5: "fold (\<lambda>sintoma.
                    si_no_existe sintoma
                      (\<lambda>n g. let (v, g) = np_random_choice_p [''yes'', ''no''] [6 / 10, 4 / 10] n g
                             in (str_col v, g)))
              sintomas (b4, g4) = (b5, g5)"
    by (rule prod.exhaust)
  obtain b6 g6 where s6: "si_no_existe ''gender''
              (\<lambda>n g. let (v, g) = np_random_choice [''m'', ''f''] n g in (str_col v, g)) (b5, g5) = (b6, g6)"
    by (rule prod.exhaust)
  have "procesar_datos g base =
     (case getitem b6 ''age_years'' of
           None \<Rightarrow> (Inl KeyError, g6)
         | Some age_years \<Rightarrow>
             (case pd_cut age_years [0, 18, 40, 60, 100] [''0-17'', ''18-39'', ''40-59'', ''60+''] False of
                Inl e \<Rightarrow> (Inl e, g6)
              | Inr grupo_edad \<Rightarrow>
                  (case si_no_existe ''cluster''
                           (\<lambda>n g. let (v, g) = np_random_choice [0, 1, 2, 3] n g
                                  in (num_col v, g)) (setitem b6 ''grupo_edad'' grupo_edad, g6)
                   of (b, g) \<Rightarrow> (Inr b, g))))"
    unfolding procesar_datos_def
    apply (subst let_pair [OF s1])
    apply (subst let_pair [OF s2])
    apply (subst let_pair [OF s3])
    apply (subst let_pair [OF s4])
    apply (subst let_pair [OF s5])
    apply (subst let_pair [OF s6])
    apply (simp only: Let_def)
    done
  with s1 s2 s3 s4 s5 s6 show thesis by (rule that)
qed


subsection \<open>What the samplers return\<close>

lemma draw_length: "length (fst (draw n g)) = n"
  by (simp add: draw_def)

lemma uniform_filled:
  "column_filled n (fst (let (v, g) = np_random_uniform lo hi n g in (num_col v, g)))"
  by (simp add: column_filled_def np_random_uniform_def draw_def num_col_def split_beta Let_def image_iff)

lemma choice_p_str_filled:
  "column_filled n (fst (let (v, g) = np_random_choice_p a p n g in (str_col v, g)))"
  by (simp add: column_filled_def np_random_choice_p_def draw_def str_col_def split_beta Let_def image_iff)

lemma choice_str_filled:
  "column_filled n (fst (let (v, g) = np_random_choice a n g in (str_col v, g)))"
  by (simp add: column_filled_def np_random_choice_def draw_def str_col_def split_beta Let_def image_iff)

lemma choice_num_filled:
  "column_filled n (fst (let (v, g) = np_random_choice a n g in (num_col v, g)))"
  by (simp add: column_filled_def np_random_choice_def draw_def num_col_def split_beta Let_def image_iff)

lemma choice_p_length: "length (fst (np_random_choice_p a p n g)) = n"
  by (simp add: np_random_choice_p_def draw_def split_beta Let_def)

lemma randint_length: "length (fst (np_random_randint lo hi n g)) = n"
  by (simp add: np_random_randint_def draw_def split_beta Let_def)

lemma randint_range:
  assumes "lo < hi" and "x \<in> set (fst (np_random_randint lo hi n g))"
  shows "lo \<le> x \<and> x < hi"
proof -
  from assms(2) obtain r where x: "x = lo + int (r mod nat (hi - lo))"
    by (auto simp: np_random_randint_def draw_def split_beta Let_def)
  have "r mod nat (hi - lo) < nat (hi - lo)"
    using assms(1) by simp
  then show ?thesis using x assms(1) by linarith
qed

lemma eq_astype_int_filled: "\<exists>xs. eq_astype_int oc s = NumCol xs \<and> None \<notin> set xs \<and> length xs = col_length oc"
  by (cases oc) (auto simp: image_iff)

lemma grupo_edad_de_fun:
  "grupo_edad_de = cut_value [0, 18, 40, 60, 100] [''0-17'', ''18-39'', ''40-59'', ''60+''] False"
  by (rule ext) (simp add: grupo_edad_de_def)

subsection \<open>The table the normalizer returns\<close>

lemma procesar_datos_Inr:
  assumes "procesar_datos g base = (Inr b', g')"
  shows "len b' = len base
    \<and> (\<forall>k col. k \<noteq> ''mortalidad'' \<longrightarrow> k \<noteq> ''grupo_edad'' \<longrightarrow> getitem base k = Some col
         \<longrightarrow> getitem b' k = Some col)
    \<and> (\<exists>xs. getitem b' ''mortalidad'' = Some (NumCol xs) \<and> None \<notin> set xs
           \<and> length xs = (case getitem base ''outcome'' of Some oc \<Rightarrow> col_length oc | None \<Rightarrow> len base))
    \<and> getitem b' ''mortalidad''
         = Some (case getitem base ''outcome'' of
                   Some oc \<Rightarrow> eq_astype_int oc ''Death''
                 | None \<Rightarrow> num_col (fst (np_random_choice_p [0, 1] [8 / 10, 2 / 10] (len base) g)))
    \<and> (\<exists>ages. getitem b' ''age_years'' = Some (NumCol ages)
           \<and> getitem b' ''grupo_edad''
               = Some (StrCol (map (\<lambda>v. case v of None \<Rightarrow> None | Some x \<Rightarrow> grupo_edad_de x) ages)))
    \<and> (getitem base ''age_years'' = None \<longrightarrow> getitem base ''age'' = None
         \<longrightarrow> (\<exists>v. getitem b' ''age_years'' = Some (num_col (map of_int v)) \<and> length v = len base
               \<and> (\<forall>x\<in>set v. 18 \<le> x \<and> x < 80)))
    \<and> (\<forall>col. getitem base ''age_years'' = None \<longrightarrow> getitem base ''age'' = Some col
         \<longrightarrow> getitem b' ''age_years'' = Some col)
    \<and> (\<forall>k \<in> set [''bmi_calculado'', ''ct_blood'', ''fever'', ''cough'', ''chills'', ''aches'',
                   ''vomit'', ''gender'', ''cluster''].
         getitem base k = None
         \<longrightarrow> (\<exists>col. getitem b' k = Some col \<and> column_filled (len base) col))"
proof (cases rule: procesar_datos_steps [where g = g and base = base])
  case (steps b1 g1 b2 g2 b3 g3 b4 g4 b5 g5 b6 g6)
  have l1: "len b1 = len base"
    using steps(1) by (auto simp: len_setitem split_beta Let_def split: option.splits)
  obtain M where g1: "\<And>k. getitem b1 k = (if k = ''mortalidad'' then Some (NumCol M) else getitem base k)"
    and M: "None \<notin> set M"
      "length M = (case getitem base ''outcome'' of Some oc \<Rightarrow> col_length oc | None \<Rightarrow> len base)"
      "NumCol M = (case getitem base ''outcome'' of
                     Some oc \<Rightarrow> eq_astype_int oc ''Death''
                   | None \<Rightarrow> num_col (fst (np_random_choice_p [0, 1] [8 / 10, 2 / 10] (len base) g)))"
  proof (cases "getitem base ''outcome''")
    case None
    let ?M = "map Some (fst (np_random_choice_p [0, 1] [8 / 10, 2 / 10] (len base) g))"
    have "b1 = setitem base ''mortalidad'' (NumCol ?M)"
      using steps(1) None by (simp add: split_beta Let_def num_col_def)
    then have "\<And>k. getitem b1 k = (if k = ''mortalidad'' then Some (NumCol ?M) else getitem base k)"
      by (simp add: getitem_setitem)
    moreover have "None \<notin> set ?M" by (simp add: image_iff)
    moreover have "length ?M = (case getitem base ''outcome'' of Some oc \<Rightarrow> col_length oc | None \<Rightarrow> len base)"
      using None by (simp add: choice_p_length)
    moreover have "NumCol ?M = (case getitem base ''outcome'' of
                     Some oc \<Rightarrow> eq_astype_int oc ''Death''
                   | None \<Rightarrow> num_col (fst (np_random_choice_p [0, 1] [8 / 10, 2 / 10] (len base) g)))"
      using None by (simp add: num_col_def)
    ultimately show ?thesis by (rule that)
  next
    case (Some oc)
    obtain xs where xs: "eq_astype_int oc ''Death'' = NumCol xs" "None \<notin> set xs" "length xs = col_length oc"
      using eq_astype_int_filled by blast
    have "b1 = setitem base ''mortalidad'' (NumCol xs)"
      using steps(1) Some xs(1) by simp
    then have "\<And>k. getitem b1 k = (if k = ''mortalidad'' then Some (NumCol xs) else getitem base k)"
      by (simp add: getitem_setitem)
    moreover note xs(2)
    moreover have "length xs = (case getitem base ''outcome'' of Some oc \<Rightarrow> col_length oc | None \<Rightarrow> len base)"
      using Some xs(3) by simp
    moreover have "NumCol xs = (case getitem base ''outcome'' of
                     Some oc \<Rightarrow> eq_astype_int oc ''Death''
                   | None \<Rightarrow> num_col (fst (np_random_choice_p [0, 1] [8 / 10, 2 / 10] (len base) g)))"
      using Some xs(1) by simp
    ultimately show ?thesis by (rule that)
  qed
  have o1: "\<And>k. k \<noteq> ''mortalidad'' \<Longrightarrow> getitem b1 k = getitem base k"
    by (simp add: g1)
  have l2: "len b2 = len b1"
    using steps(2) by (auto simp: len_setitem split_beta Let_def split: option.splits if_splits)
  have o2: "\<And>k. k \<noteq> ''age_years'' \<Longrightarrow> getitem b2 k = getitem b1 k"
    using steps(2)
    by (auto simp: getitem_setitem split_beta Let_def split: option.splits if_splits)
  have k2: "\<And>k col. getitem b1 k = Some col \<Longrightarrow> getitem b2 k = Some col"
    using steps(2)
    by (auto simp: has_column_getitem getitem_setitem split_beta Let_def split: option.splits if_splits)
  have n2: "getitem b1 ''age_years'' = None \<Longrightarrow> getitem b2 ''age_years''
      = Some (case getitem b1 ''age'' of Some age \<Rightarrow> age
              | None \<Rightarrow> num_col (map of_int (fst (np_random_randint 18 80 (len b1) g1))))"
    using steps(2)
    by (auto simp: has_column_getitem getitem_setitem split_beta Let_def split: option.splits)
  note l3 = si_no_existe_len [OF steps(3)] and o3 = si_no_existe_other [OF steps(3)]
    and k3 = si_no_existe_keeps [OF steps(3)] and n3 = si_no_existe_new [OF steps(3)]
  note l4 = si_no_existe_len [OF steps(4)] and o4 = si_no_existe_other [OF steps(4)]
    and k4 = si_no_existe_keeps [OF steps(4)] and n4 = si_no_existe_new [OF steps(4)]
  note l5 = fold_si_no_existe_len [OF steps(5)] and o5 = fold_si_no_existe_other [OF steps(5)]
    and k5 = fold_si_no_existe_keeps [OF steps(5)] and n5 = fold_si_no_existe_new [OF steps(5)]
  note l6 = si_no_existe_len [OF steps(6)] and o6 = si_no_existe_other [OF steps(6)]
    and k6 = si_no_existe_keeps [OF steps(6)] and n6 = si_no_existe_new [OF steps(6)]
  from assms steps(7) obtain ages where a6: "getitem b6 ''age_years'' = Some (NumCol ages)"
    and s7: "si_no_existe ''cluster''
               (\<lambda>n g. let (v, g) = np_random_choice [0, 1, 2, 3] n g in (num_col v, g))
               (setitem b6 ''grupo_edad'' (StrCol (map (\<lambda>v. case v of None \<Rightarrow> None | Some x \<Rightarrow> grupo_edad_de x) ages)), g6)
             = (b', g')"
    by (auto simp: grupo_edad_de_fun split: option.splits sum.splits prod.splits elim!: pd_cut.elims)
  define b7 where "b7 = setitem b6 ''grupo_edad'' (StrCol (map (\<lambda>v. case v of None \<Rightarrow> None | Some x \<Rightarrow> grupo_edad_de x) ages))"
  have g7: "\<And>k. getitem b7 k = (if k = ''grupo_edad'' then Some (StrCol (map (\<lambda>v. case v of None \<Rightarrow> None | Some x \<Rightarrow> grupo_edad_de x) ages)) else getitem b6 k)"
    by (simp add: b7_def getitem_setitem)
  have o7: "\<And>k. k \<noteq> ''grupo_edad'' \<Longrightarrow> getitem b7 k = getitem b6 k"
    by (simp add: g7)
  have l7: "len b7 = len b6"
    by (simp add: b7_def len_setitem)
  note s8 = s7 [folded b7_def]
  note l8 = si_no_existe_len [OF s8] and o8 = si_no_existe_other [OF s8]
    and k8 = si_no_existe_keeps [OF s8] and n8 = si_no_existe_new [OF s8]
  have lens: "len b7 = len base" "len b6 = len base" "len b5 = len base" "len b4 = len base"
    "len b3 = len base" "len b2 = len base"
    using l1 l2 l3 l4 l5 l6 l7 by simp_all
  have c1: "len b' = len base"
    using l8 lens by simp
  have c2: "\<forall>k col. k \<noteq> ''mortalidad'' \<longrightarrow> k \<noteq> ''grupo_edad'' \<longrightarrow> getitem base k = Some col
       \<longrightarrow> getitem b' k = Some col"
  proof (intro allI impI)
    fix k col
    assume k: "k \<noteq> ''mortalidad''" "k \<noteq> ''grupo_edad''" and col: "getitem base k = Some col"
    have "getitem b1 k = Some col"
      using k col by (simp add: o1)
    then have "getitem b2 k = Some col" by (rule k2)
    then have "getitem b3 k = Some col" by (rule k3)
    then have "getitem b4 k = Some col" by (rule k4)
    then have "getitem b5 k = Some col" by (rule k5)
    then have "getitem b6 k = Some col" by (rule k6)
    then have "getitem b7 k = Some col" using k by (simp add: o7)
    then show "getitem b' k = Some col" by (rule k8)
  qed
  have after2: "getitem b' ''age_years'' = getitem b2 ''age_years''"
    by (simp add: o8 o7 o6 o5 o4 o3 sintomas_def)
  have c3: "\<exists>xs. getitem b' ''mortalidad'' = Some (NumCol xs) \<and> None \<notin> set xs
           \<and> length xs = (case getitem base ''outcome'' of Some oc \<Rightarrow> col_length oc | None \<Rightarrow> len base)"
  proof -
    have "getitem b' ''mortalidad'' = getitem b1 ''mortalidad''"
      by (simp add: o8 o7 o6 o5 o4 o3 o2 sintomas_def)
    then have "getitem b' ''mortalidad'' = Some (NumCol M)"
      by (simp add: g1)
    with M(1,2) show ?thesis by blast
  qed
  have c3': "getitem b' ''mortalidad''
         = Some (case getitem base ''outcome'' of
                   Some oc \<Rightarrow> eq_astype_int oc ''Death''
                 | None \<Rightarrow> num_col (fst (np_random_choice_p [0, 1] [8 / 10, 2 / 10] (len base) g)))"
  proof -
    have "getitem b' ''mortalidad'' = getitem b1 ''mortalidad''"
      by (simp add: o8 o7 o6 o5 o4 o3 o2 sintomas_def)
    then have "getitem b' ''mortalidad'' = Some (NumCol M)"
      by (simp add: g1)
    with M(3) show ?thesis by simp
  qed
  have c4: "\<exists>ages. getitem b' ''age_years'' = Some (NumCol ages)
           \<and> getitem b' ''grupo_edad''
               = Some (StrCol (map (\<lambda>v. case v of None \<Rightarrow> None | Some x \<Rightarrow> grupo_edad_de x) ages))"
  proof -
    have "getitem b' ''age_years'' = Some (NumCol ages)"
      using a6 by (simp add: o8 o7)
    moreover have "getitem b' ''grupo_edad'' = Some (StrCol (map (\<lambda>v. case v of None \<Rightarrow> None | Some x \<Rightarrow> grupo_edad_de x) ages))"
      by (simp add: o8 g7)
    ultimately show ?thesis by blast
  qed
  have c5: "getitem base ''age_years'' = None \<longrightarrow> getitem base ''age'' = None
         \<longrightarrow> (\<exists>v. getitem b' ''age_years'' = Some (num_col (map of_int v)) \<and> length v = len base
               \<and> (\<forall>x\<in>set v. 18 \<le> x \<and> x < 80))"
  proof (intro impI)
    assume "getitem base ''age_years'' = None" "getitem base ''age'' = None"
    then have "getitem b1 ''age_years'' = None" "getitem b1 ''age'' = None"
      by (simp_all add: o1)
    then have "getitem b' ''age_years''
        = Some (num_col (map of_int (fst (np_random_randint 18 80 (len base) g1))))"
      by (simp add: after2 n2 l1)
    moreover have "length (fst (np_random_randint 18 80 (len base) g1)) = len base"
      by (rule randint_length)
    moreover have "\<forall>x\<in>set (fst (np_random_randint 18 80 (len base) g1)). 18 \<le> x \<and> x < 80"
      using randint_range [of 18 80] by simp
    ultimately show "\<exists>v. getitem b' ''age_years'' = Some (num_col (map of_int v)) \<and> length v = len base
               \<and> (\<forall>x\<in>set v. 18 \<le> x \<and> x < 80)"
      by blast
  qed
  have c6: "\<forall>col. getitem base ''age_years'' = None \<longrightarrow> getitem base ''age'' = Some col
         \<longrightarrow> getitem b' ''age_years'' = Some col"
  proof (intro allI impI)
    fix col
    assume "getitem base ''age_years'' = None" "getitem base ''age'' = Some col"
    then have "getitem b1 ''age_years'' = None" "getitem b1 ''age'' = Some col"
      by (simp_all add: o1)
    then show "getitem b' ''age_years'' = Some col"
      by (simp add: after2 n2)
  qed
  have f_bmi_calculado: "getitem base ''bmi_calculado'' = None
      \<longrightarrow> (\<exists>col. getitem b' ''bmi_calculado'' = Some col \<and> column_filled (len base) col)"
  proof
    assume "getitem base ''bmi_calculado'' = None"
    then have before: "getitem b2 ''bmi_calculado'' = None"
      by (simp add: o2 o1 sintomas_def)
    from n3 [OF before] obtain col where at: "getitem b3 ''bmi_calculado'' = Some col" and filled: "column_filled (len base) col"
      using uniform_filled [of "len base"] by (simp add: lens)
    have "getitem b' ''bmi_calculado'' = getitem b3 ''bmi_calculado''"
      by (simp add: o8 o7 o6 o5 o4 sintomas_def)
    with at filled show "\<exists>col. getitem b' ''bmi_calculado'' = Some col \<and> column_filled (len base) col"
      by simp
  qed
  have f_ct_blood: "getitem base ''ct_blood'' = None
      \<longrightarrow> (\<exists>col. getitem b' ''ct_blood'' = Some col \<and> column_filled (len base) col)"
  proof
    assume "getitem base ''ct_blood'' = None"
    then have before: "getitem b3 ''ct_blood'' = None"
      by (simp add: o3 o2 o1 sintomas_def)
    from n4 [OF before] obtain col where at: "getitem b4 ''ct_blood'' = Some col" and filled: "column_filled (len base) col"
      using uniform_filled [of "len base"] by (simp add: lens)
    have "getitem b' ''ct_blood'' = getitem b4 ''ct_blood''"
      by (simp add: o8 o7 o6 o5 sintomas_def)
    with at filled show "\<exists>col. getitem b' ''ct_blood'' = Some col \<and> column_filled (len base) col"
      by simp
  qed
  have f_fever: "getitem base ''fever'' = None
      \<longrightarrow> (\<exists>col. getitem b' ''fever'' = Some col \<and> column_filled (len base) col)"
  proof
    assume "getitem base ''fever'' = None"
    then have before: "getitem b4 ''fever'' = None"
      by (simp add: o4 o3 o2 o1 sintomas_def)
    have "''fever'' \<in> set sintomas"
      by (simp add: sintomas_def)
    from n5 [OF this before] obtain g0 where "getitem b5 ''fever'' = Some (fst (let (v, g) = np_random_choice_p [''yes'', ''no''] [6 / 10, 4 / 10] (len b4) g0 in (str_col v, g)))"
      by blast
    then obtain col where at: "getitem b5 ''fever'' = Some col" and filled: "column_filled (len base) col"
      using choice_p_str_filled [of "len base"] by (simp add: lens)
    have "getitem b' ''fever'' = getitem b5 ''fever''"
      by (simp add: o8 o7 o6 sintomas_def)
    with at filled show "\<exists>col. getitem b' ''fever'' = Some col \<and> column_filled (len base) col"
      by simp
  qed
  have f_cough: "getitem base ''cough'' = None
      \<longrightarrow> (\<exists>col. getitem b' ''cough'' = Some col \<and> column_filled (len base) col)"
  proof
    assume "getitem base ''cough'' = None"
    then have before: "getitem b4 ''cough'' = None"
      by (simp add: o4 o3 o2 o1 sintomas_def)
    have "''cough'' \<in> set sintomas"
      by (simp add: sintomas_def)
    from n5 [OF this before] obtain g0 where "getitem b5 ''cough'' = Some (fst (let (v, g) = np_random_choice_p [''yes'', ''no''] [6 / 10, 4 / 10] (len b4) g0 in (str_col v, g)))"
      by blast
    then obtain col where at: "getitem b5 ''cough'' = Some col" and filled: "column_filled (len base) col"
      using choice_p_str_filled [of "len base"] by (simp add: lens)
    have "getitem b' ''cough'' = getitem b5 ''cough''"
      by (simp add: o8 o7 o6 sintomas_def)
    with at filled show "\<exists>col. getitem b' ''cough'' = Some col \<and> column_filled (len base) col"
      by simp
  qed
  have f_chills: "getitem base ''chills'' = None
      \<longrightarrow> (\<exists>col. getitem b' ''chills'' = Some col \<and> column_filled (len base) col)"
  proof
    assume "getitem base ''chills'' = None"
    then have before: "getitem b4 ''chills'' = None"
      by (simp add: o4 o3 o2 o1 sintomas_def)
    have "''chills'' \<in> set sintomas"
      by (simp add: sintomas_def)
    from n5 [OF this before] obtain g0 where "getitem b5 ''chills'' = Some (fst (let (v, g) = np_random_choice_p [''yes'', ''no''] [6 / 10, 4 / 10] (len b4) g0 in (str_col v, g)))"
      by blast
    then obtain col where at: "getitem b5 ''chills'' = Some col" and filled: "column_filled (len base) col"
      using choice_p_str_filled [of "len base"] by (simp add: lens)
    have "getitem b' ''chills'' = getitem b5 ''chills''"
      by (simp add: o8 o7 o6 sintomas_def)
    with at filled show "\<exists>col. getitem b' ''chills'' = Some col \<and> column_filled (len base) col"
      by simp
  qed
  have f_aches: "getitem base ''aches'' = None
      \<longrightarrow> (\<exists>col. getitem b' ''aches'' = Some col \<and> column_filled (len base) col)"
  proof
    assume "getitem base ''aches'' = None"
    then have before: "getitem b4 ''aches'' = None"
      by (simp add: o4 o3 o2 o1 sintomas_def)
    have "''aches'' \<in> set sintomas"
      by (simp add: sintomas_def)
    from n5 [OF this before] obtain g0 where "getitem b5 ''aches'' = Some (fst (let (v, g) = np_random_choice_p [''yes'', ''no''] [6 / 10, 4 / 10] (len b4) g0 in (str_col v, g)))"
      by blast
    then obtain col where at: "getitem b5 ''aches'' = Some col" and filled: "column_filled (len base) col"
      using choice_p_str_filled [of "len base"] by (simp add: lens)
    have "getitem b' ''aches'' = getitem b5 ''aches''"
      by (simp add: o8 o7 o6 sintomas_def)
    with at filled show "\<exists>col. getitem b' ''aches'' = Some col \<and> column_filled (len base) col"
      by simp
  qed
  have f_vomit: "getitem base ''vomit'' = None
      \<longrightarrow> (\<exists>col. getitem b' ''vomit'' = Some col \<and> column_filled (len base) col)"
  proof
    assume "getitem base ''vomit'' = None"
    then have before: "getitem b4 ''vomit'' = None"
      by (simp add: o4 o3 o2 o1 sintomas_def)
    have "''vomit'' \<in> set sintomas"
      by (simp add: sintomas_def)
    from n5 [OF this before] obtain g0 where "getitem b5 ''vomit'' = Some (fst (let (v, g) = np_random_choice_p [''yes'', ''no''] [6 / 10, 4 / 10] (len b4) g0 in (str_col v, g)))"
      by blast
    then obtain col where at: "getitem b5 ''vomit'' = Some col" and filled: "column_filled (len base) col"
      using choice_p_str_filled [of "len base"] by (simp add: lens)
    have "getitem b' ''vomit'' = getitem b5 ''vomit''"
      by (simp add: o8 o7 o6 sintomas_def)
    with at filled show "\<exists>col. getitem b' ''vomit'' = Some col \<and> column_filled (len base) col"
      by simp
  qed
  have f_gender: "getitem base ''gender'' = None
      \<longrightarrow> (\<exists>col. getitem b' ''gender'' = Some col \<and> column_filled (len base) col)"
  proof
    assume "getitem base ''gender'' = None"
    then have before: "getitem b5 ''gender'' = None"
      by (simp add: o5 o4 o3 o2 o1 sintomas_def)
    from n6 [OF before] obtain col where at: "getitem b6 ''gender'' = Some col" and filled: "column_filled (len base) col"
      using choice_str_filled [of "len base"] by (simp add: lens)
    have "getitem b' ''gender'' = getitem b6 ''gender''"
      by (simp add: o8 o7 sintomas_def)
    with at filled show "\<exists>col. getitem b' ''gender'' = Some col \<and> column_filled (len base) col"
      by simp
  qed
  have f_cluster: "getitem base ''cluster'' = None
      \<longrightarrow> (\<exists>col. getitem b' ''cluster'' = Some col \<and> column_filled (len base) col)"
  proof
    assume "getitem base ''cluster'' = None"
    then have before: "getitem b7 ''cluster'' = None"
      by (simp add: o7 o6 o5 o4 o3 o2 o1 sintomas_def)
    from n8 [OF before] obtain col where at: "getitem b' ''cluster'' = Some col" and filled: "column_filled (len base) col"
      using choice_num_filled [of "len base"] by (simp add: lens)
    from at filled show "\<exists>col. getitem b' ''cluster'' = Some col \<and> column_filled (len base) col"
      by simp
  qed
  have c7: "\<forall>k \<in> set [''bmi_calculado'', ''ct_blood'', ''fever'', ''cough'', ''chills'', ''aches'',
                   ''vomit'', ''gender'', ''cluster''].
         getitem base k = None
         \<longrightarrow> (\<exists>col. getitem b' k = Some col \<and> column_filled (len base) col)"
    using f_bmi_calculado f_ct_blood f_fever f_cough f_chills f_aches f_vomit f_gender f_cluster
    by simp
  show ?thesis
    by (intro conjI c1 c2 c3 c3' c4 c5 c6 c7)
qed

lemma procesar_datos_succeeds:
  assumes "getitem base ''age_years'' = Some (NumCol ages)
     \<or> getitem base ''age_years'' = None
        \<and> (getitem base ''age'' = None \<or> getitem base ''age'' = Some (NumCol ages))"
  shows "\<exists>b' g'. procesar_datos g base = (Inr b', g')"
proof (cases rule: procesar_datos_steps [where g = g and base = base])
  case (steps b1 g1 b2 g2 b3 g3 b4 g4 b5 g5 b6 g6)
  have o1: "\<And>k. k \<noteq> ''mortalidad'' \<Longrightarrow> getitem b1 k = getitem base k"
    using steps(1) by (auto simp: getitem_setitem split_beta Let_def split: option.splits)
  have a1: "getitem b1 ''age_years'' = getitem base ''age_years''"
    "getitem b1 ''age'' = getitem base ''age''"
    by (simp_all add: o1)
  from assms have "getitem b1 ''age_years'' = Some (NumCol ages)
     \<or> getitem b1 ''age_years'' = None
        \<and> (getitem b1 ''age'' = None \<or> getitem b1 ''age'' = Some (NumCol ages))"
    by (simp only: a1)
  then have "\<exists>xs. getitem b2 ''age_years'' = Some (NumCol xs)"
    using steps(2)
    by (auto simp: has_column_getitem getitem_setitem num_col_def split_beta Let_def
        split: option.splits if_splits)
  then obtain xs where "getitem b2 ''age_years'' = Some (NumCol xs)" ..
  then have "getitem b3 ''age_years'' = Some (NumCol xs)"
    by (rule si_no_existe_keeps [OF steps(3)])
  then have "getitem b4 ''age_years'' = Some (NumCol xs)"
    by (rule si_no_existe_keeps [OF steps(4)])
  then have "getitem b5 ''age_years'' = Some (NumCol xs)"
    by (rule fold_si_no_existe_keeps [OF steps(5)])
  then have a6: "getitem b6 ''age_years'' = Some (NumCol xs)"
    by (rule si_no_existe_keeps [OF steps(6)])
  show ?thesis
    unfolding steps(7) a6 option.case pd_cut.simps sum.case
    by (simp add: split_beta)
qed

lemma well_formed_getitem:
  "well_formed base \<Longrightarrow> getitem base k = Some col \<Longrightarrow> col_length col = len base"
  by (auto simp: well_formed_def getitem_def list_all_iff dest!: map_of_SomeD)

lemma grupo_edad_de_Some: "0 \<le> a \<Longrightarrow> a < 100 \<Longrightarrow> grupo_edad_de a \<noteq> None"
  by (simp add: grupo_edad_de_def)

lemma grupo_edad_de_bins:
  "grupo_edad_de a =
     (if 0 \<le> a \<and> a < 18 then Some ''0-17''
      else if 18 \<le> a \<and> a < 40 then Some ''18-39''
      else if 40 \<le> a \<and> a < 60 then Some ''40-59''
      else if 60 \<le> a \<and> a < 100 then Some ''60+''
      else None)"
  by (simp add: grupo_edad_de_def)

lemma projr_result:
  "procesar_datos g base = (Inr b', g') \<Longrightarrow> fst (procesar_datos g base) = Inr b'"
  by simp

lemma result_projr:
  "fst (procesar_datos g base) = Inr b' \<Longrightarrow> procesar_datos g base = (Inr b', snd (procesar_datos g base))"
  by (metis prod.collapse)

lemma procesar_datos_len:
  "procesar_datos g base = (Inr b', g') \<Longrightarrow> len b' = len base"
  by (rule procesar_datos_Inr [THEN conjunct1])

lemma procesar_datos_keeps:
  "procesar_datos g base = (Inr b', g') \<Longrightarrow> k \<noteq> ''mortalidad'' \<Longrightarrow> k \<noteq> ''grupo_edad''
   \<Longrightarrow> getitem base k = Some col \<Longrightarrow> getitem b' k = Some col"
  by (rule procesar_datos_Inr [THEN conjunct2, THEN conjunct1, rule_format])

lemma procesar_datos_mortalidad:
  "procesar_datos g base = (Inr b', g') \<Longrightarrow>
   getitem b' ''mortalidad''
     = Some (case getitem base ''outcome'' of
               Some oc \<Rightarrow> eq_astype_int oc ''Death''
             | None \<Rightarrow> num_col (fst (np_random_choice_p [0, 1] [8 / 10, 2 / 10] (len base) g)))"
  by (rule procesar_datos_Inr [THEN conjunct2, THEN conjunct2, THEN conjunct2, THEN conjunct1])

lemma procesar_datos_grupo_edad:
  assumes "procesar_datos g base = (Inr b', g')"
  obtains ages where "getitem b' ''age_years'' = Some (NumCol ages)"
    and "getitem b' ''grupo_edad''
           = Some (StrCol (map (\<lambda>v. case v of None \<Rightarrow> None | Some x \<Rightarrow> grupo_edad_de x) ages))"
  using procesar_datos_Inr [OF assms, THEN conjunct2, THEN conjunct2, THEN conjunct2,
      THEN conjunct2, THEN conjunct1]
  by (elim exE conjE)

lemma procesar_datos_draws_age:
  assumes "procesar_datos g base = (Inr b', g')"
    and "getitem base ''age_years'' = None" and "getitem base ''age'' = None"
  obtains v where "getitem b' ''age_years'' = Some (num_col (map of_int v))"
    and "length v = len base" and "\<forall>x\<in>set v. 18 \<le> x \<and> x < 80"
  using procesar_datos_Inr [OF assms(1), THEN conjunct2, THEN conjunct2, THEN conjunct2,
      THEN conjunct2, THEN conjunct2, THEN conjunct1, rule_format, OF assms(2,3)]
  by (elim exE conjE)

lemma procesar_datos_copies_age:
  "procesar_datos g base = (Inr b', g') \<Longrightarrow> getitem base ''age_years'' = None
   \<Longrightarrow> getitem base ''age'' = Some col \<Longrightarrow> getitem b' ''age_years'' = Some col"
  by (rule procesar_datos_Inr [THEN conjunct2, THEN conjunct2, THEN conjunct2,
      THEN conjunct2, THEN conjunct2, THEN conjunct2, THEN conjunct1, rule_format])

lemma procesar_datos_new:
  assumes "procesar_datos g base = (Inr b', g')"
    and "k \<in> set [''bmi_calculado'', ''ct_blood'', ''fever'', ''cough'', ''chills'', ''aches'',
                   ''vomit'', ''gender'', ''cluster'']"
    and "getitem base k = None"
  obtains col where "getitem b' k = Some col" and "column_filled (len base) col"
  using procesar_datos_Inr [OF assms(1), THEN conjunct2, THEN conjunct2, THEN conjunct2,
      THEN conjunct2, THEN conjunct2, THEN conjunct2, THEN conjunct2, rule_format, OF assms(2,3)]
  by (elim exE conjE)

subsection \<open>Which columns of the returned table are filled\<close>

lemma no_None_map: "(None \<notin> set (map f xs)) = (\<forall>x\<in>set xs. f x \<noteq> None)"
  by (induction xs) auto

lemma populatedI:
  "getitem b k = Some col \<Longrightarrow> column_filled (len b) col \<Longrightarrow> populated b k"
  by (simp add: populated_def)

lemma presentI:
  "getitem b k = Some col \<Longrightarrow> col_length col = len b \<Longrightarrow> present b k"
  by (simp add: present_def)

lemma populated_present: "populated b k \<Longrightarrow> present b k"
  by (auto simp: populated_def present_def column_filled_def split: option.splits)

lemma procesar_datos_populated_mortalidad:
  assumes r: "procesar_datos g base = (Inr b', g')" and wf: "well_formed base"
  shows "populated b' ''mortalidad''"
proof -
  from procesar_datos_Inr [OF r, THEN conjunct2, THEN conjunct2, THEN conjunct1]
  obtain xs where m: "getitem b' ''mortalidad'' = Some (NumCol xs)" and n: "None \<notin> set xs"
    and l: "length xs
      = (case getitem base ''outcome'' of Some oc \<Rightarrow> col_length oc | None \<Rightarrow> len base)"
    by (elim exE conjE)
  have "length xs = len base"
  proof (cases "getitem base ''outcome''")
    case None
    with l show ?thesis by simp
  next
    case (Some oc)
    with l well_formed_getitem [OF wf Some] show ?thesis by simp
  qed
  then have "column_filled (len b') (NumCol xs)"
    using n by (simp add: column_filled_def procesar_datos_len [OF r])
  with m show ?thesis by (rule populatedI)
qed

lemma procesar_datos_populated_new:
  assumes r: "procesar_datos g base = (Inr b', g')"
    and k: "k \<in> set [''bmi_calculado'', ''ct_blood'', ''fever'', ''cough'', ''chills'', ''aches'',
                   ''vomit'', ''gender'', ''cluster'']"
    and absent: "getitem base k = None"
  shows "populated b' k"
proof -
  from procesar_datos_new [OF r k absent]
  obtain col where "getitem b' k = Some col" and "column_filled (len base) col" .
  then show ?thesis
    by (simp add: populated_def procesar_datos_len [OF r])
qed

lemma procesar_datos_populated_keeps:
  assumes r: "procesar_datos g base = (Inr b', g')"
    and k: "k \<noteq> ''mortalidad''" "k \<noteq> ''grupo_edad''"
    and p: "populated base k"
  shows "populated b' k"
proof -
  from p obtain col where c: "getitem base k = Some col" and f: "column_filled (len base) col"
    by (auto simp: populated_def split: option.splits)
  from procesar_datos_keeps [OF r k c] f show ?thesis
    by (simp add: populated_def procesar_datos_len [OF r])
qed

lemma procesar_datos_ages:
  assumes r: "procesar_datos g base = (Inr b', g')" and wf: "well_formed base"
  obtains ages where "getitem b' ''age_years'' = Some (NumCol ages)"
    and "length ages = len base"
    and "getitem b' ''grupo_edad''
           = Some (StrCol (map (\<lambda>v. case v of None \<Rightarrow> None | Some x \<Rightarrow> grupo_edad_de x) ages))"
proof -
  from procesar_datos_grupo_edad [OF r]
  obtain ages where a: "getitem b' ''age_years'' = Some (NumCol ages)"
    and gr: "getitem b' ''grupo_edad''
           = Some (StrCol (map (\<lambda>v. case v of None \<Rightarrow> None | Some x \<Rightarrow> grupo_edad_de x) ages))" .
  have "length ages = len base"
  proof (cases "getitem base ''age_years''")
    case (Some col)
    have "getitem b' ''age_years'' = Some col"
      by (rule procesar_datos_keeps [OF r _ _ Some]) simp_all
    with a have "col = NumCol ages" by simp
    with well_formed_getitem [OF wf Some] show ?thesis by simp
  next
    case None
    show ?thesis
    proof (cases "getitem base ''age''")
      case (Some col)
      from procesar_datos_copies_age [OF r None Some] a have "col = NumCol ages" by simp
      with well_formed_getitem [OF wf Some] show ?thesis by simp
    next
      case None': None
      from procesar_datos_draws_age [OF r None None']
      obtain v where "getitem b' ''age_years'' = Some (num_col (map of_int v))"
        and "length v = len base" by blast
      with a show ?thesis by (auto simp: num_col_def)
    qed
  qed
  with a gr show thesis by (intro that)
qed

lemma procesar_datos_populated_drawn_age:
  assumes r: "procesar_datos g base = (Inr b', g')"
    and n: "getitem base ''age_years'' = None" "getitem base ''age'' = None"
  shows "populated b' ''age_years''" and "populated b' ''grupo_edad''"
proof -
  from procesar_datos_draws_age [OF r n]
  obtain v where a: "getitem b' ''age_years'' = Some (num_col (map of_int v))"
    and l: "length v = len base" and v: "\<forall>x\<in>set v. 18 \<le> x \<and> x < 80" by blast
  have "column_filled (len b') (num_col (map of_int v))"
    using l by (simp add: column_filled_def num_col_def procesar_datos_len [OF r] image_iff)
  with a show "populated b' ''age_years''" by (rule populatedI)
  from procesar_datos_grupo_edad [OF r]
  obtain ages where a': "getitem b' ''age_years'' = Some (NumCol ages)"
    and gr: "getitem b' ''grupo_edad''
           = Some (StrCol (map (\<lambda>v. case v of None \<Rightarrow> None | Some x \<Rightarrow> grupo_edad_de x) ages))" .
  from a a' have ages: "ages = map Some (map of_int v)"
    by (simp add: num_col_def)
  have "grupo_edad_de (of_int x) \<noteq> None" if "x \<in> set v" for x
  proof (rule grupo_edad_de_Some)
    from v that have "18 \<le> x" "x < 80" by simp_all
    then show "(0::rat) \<le> of_int x" "(of_int x :: rat) < 100" by simp_all
  qed
  then have "\<forall>x\<in>set v. grupo_edad_de (of_int x) \<noteq> None"
    by blast
  then have "None \<notin> set (map (\<lambda>x. grupo_edad_de (of_int x)) v)"
    by (simp only: no_None_map)
  moreover have "map (\<lambda>v. case v of None \<Rightarrow> None | Some x \<Rightarrow> grupo_edad_de x) ages
      = map (\<lambda>x. grupo_edad_de (of_int x)) v"
    by (simp add: ages comp_def)
  ultimately have "column_filled (len b')
      (StrCol (map (\<lambda>v. case v of None \<Rightarrow> None | Some x \<Rightarrow> grupo_edad_de x) ages))"
    using l by (simp add: column_filled_def procesar_datos_len [OF r])
  with gr show "populated b' ''grupo_edad''" by (rule populatedI)
qed

lemma procesar_datos_present_other:
  assumes r: "procesar_datos g base = (Inr b', g')" and wf: "well_formed base"
    and k: "k \<in> set [''bmi_calculado'', ''ct_blood'', ''fever'', ''cough'', ''chills'', ''aches'',
                   ''vomit'', ''gender'', ''cluster'']"
  shows "present b' k"
proof (cases "getitem base k")
  case None
  from procesar_datos_populated_new [OF r k None] show ?thesis
    by (rule populated_present)
next
  case (Some col)
  from k have "k \<noteq> ''mortalidad''" "k \<noteq> ''grupo_edad''" by auto
  from procesar_datos_keeps [OF r this Some] well_formed_getitem [OF wf Some]
  show ?thesis by (simp add: present_def procesar_datos_len [OF r])
qed

lemma procesar_datos_canonical:
  assumes r: "procesar_datos g base = (Inr b', g')" and wf: "well_formed base"
  shows "canonical b'"
proof -
  note p = procesar_datos_present_other [OF r wf]
  from procesar_datos_ages [OF r wf]
  obtain ages where a: "getitem b' ''age_years'' = Some (NumCol ages)"
    and l: "length ages = len base"
    and gr: "getitem b' ''grupo_edad''
           = Some (StrCol (map (\<lambda>v. case v of None \<Rightarrow> None | Some x \<Rightarrow> grupo_edad_de x) ages))" .
  have "present b' ''age_years''"
    using a l by (simp add: present_def procesar_datos_len [OF r])
  moreover have "present b' ''grupo_edad''"
    using gr l by (simp add: present_def procesar_datos_len [OF r])
  moreover have "present b' ''mortalidad''"
    by (rule populated_present [OF procesar_datos_populated_mortalidad [OF r wf]])
  moreover have "present b' ''bmi_calculado''" by (rule p) simp
  moreover have "present b' ''ct_blood''" by (rule p) simp
  moreover have "present b' ''fever''" by (rule p) simp
  moreover have "present b' ''cough''" by (rule p) simp
  moreover have "present b' ''chills''" by (rule p) simp
  moreover have "present b' ''aches''" by (rule p) simp
  moreover have "present b' ''vomit''" by (rule p) simp
  moreover have "present b' ''gender''" by (rule p) simp
  moreover have "present b' ''cluster''" by (rule p) simp
  ultimately show ?thesis
    by (simp add: canonical_def canonical_columns_def)
qed

subsection \<open>The claims about the normalizer\<close>

text \<open>
  Claim C4. The claim is that normalizing a canonical table again overwrites no column
  but the age-group bucket. The code draws the mortality column again whenever the table
  has no \<open>outcome\<close> column, also when the mortality column is there: on the
  one-row canonical table below, whose patient died, normalization with a generator
  whose draws are 0 returns a table whose patient survived.
\<close>

theorem procesar_datos_redraws_mortalidad:
  "fully_populated tabla_canonica
   \<and> getitem tabla_canonica ''mortalidad'' = Some (NumCol [Some 1])
   \<and> \<not> isl (fst (procesar_datos rng_ceros tabla_canonica))
   \<and> getitem (projr (fst (procesar_datos rng_ceros tabla_canonica))) ''mortalidad''
       = Some (NumCol [Some 0])"
proof -
  have a: "getitem tabla_canonica ''age_years'' = Some (NumCol [Some 30])"
    by (simp add: getitem_def tabla_canonica_def)
  have oc: "getitem tabla_canonica ''outcome'' = None"
    by (simp add: getitem_def tabla_canonica_def)
  from procesar_datos_succeeds [of tabla_canonica "[Some 30]" rng_ceros] a
  obtain b' g' where r: "procesar_datos rng_ceros tabla_canonica = (Inr b', g')"
    by blast
  have "getitem b' ''mortalidad''
      = Some (num_col (fst (np_random_choice_p [0, 1] [8 / 10, 2 / 10] (len tabla_canonica) rng_ceros)))"
    using procesar_datos_Inr [OF r] oc by simp
  also have "\<dots> = Some (NumCol [Some 0])"
    by (simp add: tabla_canonica_def np_random_choice_p_def draw_def rng_ceros_def random_sample_def
        searchsorted_right_def num_col_def)
  finally have m: "getitem b' ''mortalidad'' = Some (NumCol [Some 0])" .
  have "fully_populated tabla_canonica"
    by (simp add: fully_populated_def canonical_columns_def populated_def getitem_def
        tabla_canonica_def column_filled_def)
  moreover have "getitem tabla_canonica ''mortalidad'' = Some (NumCol [Some 1])"
    by (simp add: getitem_def tabla_canonica_def)
  ultimately show ?thesis
    using m by (simp add: r)
qed

text \<open>
  Claim C8. Whenever the normalizer returns a table, its age-group column is the age
  column cut by the right-open bins from 0 to 18, 18 to 40, 40 to 60 and 60 to 100,
  labelled \<open>0-17\<close>, \<open>18-39\<close>, \<open>40-59\<close> and \<open>60+\<close>; so the ages 17, 18, 39, 40,
  59 and 60 get the buckets \<open>0-17\<close>, \<open>18-39\<close>, \<open>18-39\<close>, \<open>40-59\<close>, \<open>40-59\<close>
  and \<open>60+\<close>.
\<close>

theorem grupo_edad_right_open_bins:
  "(fst (procesar_datos g base) = Inr b' \<longrightarrow>
      (\<exists>ages. getitem b' ''age_years'' = Some (NumCol ages)
         \<and> getitem b' ''grupo_edad''
             = Some (StrCol (map (\<lambda>v. case v of None \<Rightarrow> None | Some x \<Rightarrow> grupo_edad_de x) ages))))
   \<and> (0 \<le> a \<and> a < 18 \<longrightarrow> grupo_edad_de a = Some ''0-17'')
   \<and> (18 \<le> a \<and> a < 40 \<longrightarrow> grupo_edad_de a = Some ''18-39'')
   \<and> (40 \<le> a \<and> a < 60 \<longrightarrow> grupo_edad_de a = Some ''40-59'')
   \<and> (60 \<le> a \<and> a < 100 \<longrightarrow> grupo_edad_de a = Some ''60+'')
   \<and> grupo_edad_de 17 = Some ''0-17''
   \<and> grupo_edad_de 18 = Some ''18-39''
   \<and> grupo_edad_de 39 = Some ''18-39''
   \<and> grupo_edad_de 40 = Some ''40-59''
   \<and> grupo_edad_de 59 = Some ''40-59''
   \<and> grupo_edad_de 60 = Some ''60+''"
proof -
  have "\<exists>ages. getitem b' ''age_years'' = Some (NumCol ages)
         \<and> getitem b' ''grupo_edad''
             = Some (StrCol (map (\<lambda>v. case v of None \<Rightarrow> None | Some x \<Rightarrow> grupo_edad_de x) ages))"
    if "fst (procesar_datos g base) = Inr b'"
    using procesar_datos_grupo_edad [OF result_projr [OF that]] by blast
  moreover have "(0 \<le> a \<and> a < 18 \<longrightarrow> grupo_edad_de a = Some ''0-17'')
   \<and> (18 \<le> a \<and> a < 40 \<longrightarrow> grupo_edad_de a = Some ''18-39'')
   \<and> (40 \<le> a \<and> a < 60 \<longrightarrow> grupo_edad_de a = Some ''40-59'')
   \<and> (60 \<le> a \<and> a < 100 \<longrightarrow> grupo_edad_de a = Some ''60+'')"
    by (simp add: grupo_edad_de_bins)
  moreover have "grupo_edad_de 17 = Some ''0-17''
   \<and> grupo_edad_de 18 = Some ''18-39''
   \<and> grupo_edad_de 39 = Some ''18-39''
   \<and> grupo_edad_de 40 = Some ''40-59''
   \<and> grupo_edad_de 59 = Some ''40-59''
   \<and> grupo_edad_de 60 = Some ''60+''"
    by (simp add: grupo_edad_de_bins)
  ultimately show ?thesis
    by blast
qed

theorem grupo_edad_right_open_bins_witness:
  "fst (procesar_datos rng_ceros tabla_edades)
     = Inr (projr (fst (procesar_datos rng_ceros tabla_edades)))
   \<and> getitem (projr (fst (procesar_datos rng_ceros tabla_edades))) ''age_years''
       = Some (NumCol [Some 17, Some 18, Some 39, Some 40, Some 59, Some 60])
   \<and> getitem (projr (fst (procesar_datos rng_ceros tabla_edades))) ''grupo_edad''
       = Some (StrCol [Some ''0-17'', Some ''18-39'', Some ''18-39'', Some ''40-59'',
                       Some ''40-59'', Some ''60+''])
   \<and> (0::rat) \<le> 5 \<and> (5::rat) < 18 \<and> grupo_edad_de 5 = Some ''0-17''
   \<and> (18::rat) \<le> 25 \<and> (25::rat) < 40 \<and> grupo_edad_de 25 = Some ''18-39''
   \<and> (40::rat) \<le> 45 \<and> (45::rat) < 60 \<and> grupo_edad_de 45 = Some ''40-59''
   \<and> (60::rat) \<le> 99 \<and> (99::rat) < 100 \<and> grupo_edad_de 99 = Some ''60+''"
proof -
  let ?b = "projr (fst (procesar_datos rng_ceros tabla_edades))"
  note inst = grupo_edad_right_open_bins [of rng_ceros tabla_edades ?b]
  have a: "getitem tabla_edades ''age_years''
      = Some (NumCol [Some 17, Some 18, Some 39, Some 40, Some 59, Some 60])"
    by (simp add: getitem_def tabla_edades_def)
  have "\<exists>b' g'. procesar_datos rng_ceros tabla_edades = (Inr b', g')"
    by (rule procesar_datos_succeeds) (simp add: a)
  then obtain b' g' where r: "procesar_datos rng_ceros tabla_edades = (Inr b', g')"
    by blast
  then have b: "?b = b'"
    by simp
  have h: "fst (procesar_datos rng_ceros tabla_edades) = Inr ?b"
    by (simp add: r)
  have k: "getitem ?b ''age_years''
      = Some (NumCol [Some 17, Some 18, Some 39, Some 40, Some 59, Some 60])"
    unfolding b by (rule procesar_datos_keeps [OF r _ _ a]) simp_all
  from inst [of 5, THEN conjunct1, rule_format, OF h]
  obtain ages where ages: "getitem ?b ''age_years'' = Some (NumCol ages)"
    and gr: "getitem ?b ''grupo_edad''
      = Some (StrCol (map (\<lambda>v. case v of None \<Rightarrow> None | Some x \<Rightarrow> grupo_edad_de x) ages))"
    by (elim exE conjE)
  from ages k have "ages = [Some 17, Some 18, Some 39, Some 40, Some 59, Some 60]"
    by simp
  with gr have g: "getitem ?b ''grupo_edad''
       = Some (StrCol [Some ''0-17'', Some ''18-39'', Some ''18-39'', Some ''40-59'',
                       Some ''40-59'', Some ''60+''])"
    by (simp add: grupo_edad_de_bins)
  have b1: "grupo_edad_de 5 = Some ''0-17''"
    by (rule inst [of 5, THEN conjunct2, THEN conjunct1, rule_format]) simp
  have b2: "grupo_edad_de 25 = Some ''18-39''"
    by (rule inst [of 25, THEN conjunct2, THEN conjunct2, THEN conjunct1, rule_format]) simp
  have b3: "grupo_edad_de 45 = Some ''40-59''"
    by (rule inst [of 45, THEN conjunct2, THEN conjunct2, THEN conjunct2, THEN conjunct1,
        rule_format]) simp
  have b4: "grupo_edad_de 99 = Some ''60+''"
    by (rule inst [of 99, THEN conjunct2, THEN conjunct2, THEN conjunct2, THEN conjunct2,
        THEN conjunct1, rule_format]) simp
  show ?thesis
    by (intro conjI h k g b1 b2 b3 b4) simp_all
qed

text \<open>
  Claim C7 as the specification states it, that after normalization no field of any
  record is missing, fails on the two-row table \<open>tabla_parcial\<close>: normalization
  succeeds, the BMI cell that was empty is still empty, and the row whose age is 100 has
  no age-group bucket.
\<close>

theorem normalization_leaves_missing_cells:
  "well_formed tabla_parcial
   \<and> \<not> isl (fst (procesar_datos rng_ceros tabla_parcial))
   \<and> getitem (projr (fst (procesar_datos rng_ceros tabla_parcial))) ''age_years''
       = Some (NumCol [Some 100, Some 30])
   \<and> getitem (projr (fst (procesar_datos rng_ceros tabla_parcial))) ''bmi_calculado''
       = Some (NumCol [Some 20, None])
   \<and> getitem (projr (fst (procesar_datos rng_ceros tabla_parcial))) ''grupo_edad''
       = Some (StrCol [None, Some ''18-39''])
   \<and> \<not> populated (projr (fst (procesar_datos rng_ceros tabla_parcial))) ''bmi_calculado''
   \<and> \<not> populated (projr (fst (procesar_datos rng_ceros tabla_parcial))) ''grupo_edad''
   \<and> \<not> fully_populated (projr (fst (procesar_datos rng_ceros tabla_parcial)))"
proof -
  let ?b = "projr (fst (procesar_datos rng_ceros tabla_parcial))"
  have wf: "well_formed tabla_parcial"
    by (simp add: well_formed_def tabla_parcial_def)
  have a: "getitem tabla_parcial ''age_years'' = Some (NumCol [Some 100, Some 30])"
    and m: "getitem tabla_parcial ''bmi_calculado'' = Some (NumCol [Some 20, None])"
    by (simp_all add: getitem_def tabla_parcial_def)
  have "\<exists>b' g'. procesar_datos rng_ceros tabla_parcial = (Inr b', g')"
    by (rule procesar_datos_succeeds) (simp add: a)
  then obtain b' g' where r: "procesar_datos rng_ceros tabla_parcial = (Inr b', g')"
    by blast
  then have b: "?b = b'"
    by simp
  have ok: "\<not> isl (fst (procesar_datos rng_ceros tabla_parcial))"
    by (simp add: r)
  have a': "getitem ?b ''age_years'' = Some (NumCol [Some 100, Some 30])"
    unfolding b by (rule procesar_datos_keeps [OF r _ _ a]) simp_all
  have m': "getitem ?b ''bmi_calculado'' = Some (NumCol [Some 20, None])"
    unfolding b by (rule procesar_datos_keeps [OF r _ _ m]) simp_all
  from procesar_datos_grupo_edad [OF r]
  obtain ages where ages: "getitem b' ''age_years'' = Some (NumCol ages)"
    and gr: "getitem b' ''grupo_edad''
           = Some (StrCol (map (\<lambda>v. case v of None \<Rightarrow> None | Some x \<Rightarrow> grupo_edad_de x) ages))" .
  from ages a' have "ages = [Some 100, Some 30]"
    by (simp add: b)
  with gr have g': "getitem ?b ''grupo_edad'' = Some (StrCol [None, Some ''18-39''])"
    by (simp add: b grupo_edad_de_bins)
  have p1: "\<not> populated ?b ''bmi_calculado''"
    by (simp add: populated_def m' column_filled_def)
  have p2: "\<not> populated ?b ''grupo_edad''"
    by (simp add: populated_def g' column_filled_def)
  have p3: "\<not> fully_populated ?b"
    using p1 by (simp add: fully_populated_def canonical_columns_def)
  show ?thesis
    by (intro conjI wf ok a' m' g' p1 p2 p3)
qed

text \<open>
  Claim C7, as amended. For every well-formed table on which the normalizer returns,
  the result has the same rows and every canonical column, with one cell for each row.
  The mortality column has no missing cell. Each of the other canonical columns that
  the input did not have is filled without a missing cell (the age column when the
  input has neither \<open>age_years\<close> nor \<open>age\<close>, and then the age-group bucket too).
  A column the input already had, other than mortality and the bucket, is returned as it
  was, missing cells included. The bucket is there in every row whose age is present,
  at least 0 and below 100.
\<close>

theorem procesar_datos_completes_columns:
  assumes "well_formed base" and "fst (procesar_datos g base) = Inr b'"
  shows "len b' = len base \<and> canonical b' \<and> populated b' ''mortalidad''
    \<and> (k \<in> set [''bmi_calculado'', ''ct_blood'', ''fever'', ''cough'', ''chills'', ''aches'',
                  ''vomit'', ''gender'', ''cluster'']
         \<longrightarrow> \<not> has_column base k \<longrightarrow> populated b' k)
    \<and> (\<not> has_column base ''age_years'' \<longrightarrow> \<not> has_column base ''age''
         \<longrightarrow> populated b' ''age_years'' \<and> populated b' ''grupo_edad'')
    \<and> (k \<noteq> ''mortalidad'' \<longrightarrow> k \<noteq> ''grupo_edad'' \<longrightarrow> getitem base k = Some col
         \<longrightarrow> getitem b' k = Some col)
    \<and> (\<exists>ages grupos.
          getitem b' ''age_years'' = Some (NumCol ages)
          \<and> getitem b' ''grupo_edad'' = Some (StrCol grupos)
          \<and> length ages = len base \<and> length grupos = len base
          \<and> (\<forall>i<len base. \<forall>a. ages ! i = Some a \<longrightarrow> 0 \<le> a \<longrightarrow> a < 100
                \<longrightarrow> grupos ! i \<noteq> None))"
proof -
  note r = result_projr [OF assms(2)]
  note wf = assms(1)
  have c1: "len b' = len base"
    by (rule procesar_datos_len [OF r])
  have c2: "canonical b'"
    by (rule procesar_datos_canonical [OF r wf])
  have c3: "populated b' ''mortalidad''"
    by (rule procesar_datos_populated_mortalidad [OF r wf])
  have c4: "k \<in> set [''bmi_calculado'', ''ct_blood'', ''fever'', ''cough'', ''chills'', ''aches'',
                  ''vomit'', ''gender'', ''cluster'']
         \<longrightarrow> \<not> has_column base k \<longrightarrow> populated b' k"
    using procesar_datos_populated_new [OF r, of k] by (simp only: has_column_getitem) blast
  have c5: "\<not> has_column base ''age_years'' \<longrightarrow> \<not> has_column base ''age''
         \<longrightarrow> populated b' ''age_years'' \<and> populated b' ''grupo_edad''"
    using procesar_datos_populated_drawn_age [OF r] by (simp only: has_column_getitem) blast
  have c6: "k \<noteq> ''mortalidad'' \<longrightarrow> k \<noteq> ''grupo_edad'' \<longrightarrow> getitem base k = Some col
         \<longrightarrow> getitem b' k = Some col"
    using procesar_datos_keeps [OF r, of k col] by blast
  from procesar_datos_ages [OF r wf]
  obtain ages where a: "getitem b' ''age_years'' = Some (NumCol ages)"
    and l: "length ages = len base"
    and gr: "getitem b' ''grupo_edad''
           = Some (StrCol (map (\<lambda>v. case v of None \<Rightarrow> None | Some x \<Rightarrow> grupo_edad_de x) ages))" .
  let ?grupos = "map (\<lambda>v. case v of None \<Rightarrow> None | Some x \<Rightarrow> grupo_edad_de x) ages"
  have cells: "\<forall>i<len base. \<forall>a. ages ! i = Some a \<longrightarrow> 0 \<le> a \<longrightarrow> a < 100 \<longrightarrow> ?grupos ! i \<noteq> None"
  proof (intro allI impI)
    fix i a
    assume "i < len base" and "ages ! i = Some a" and "0 \<le> a" and "a < 100"
    then have "?grupos ! i = grupo_edad_de a"
      using l by simp
    with grupo_edad_de_Some [OF \<open>0 \<le> a\<close> \<open>a < 100\<close>] show "?grupos ! i \<noteq> None"
      by simp
  qed
  have c7: "\<exists>ages grupos.
          getitem b' ''age_years'' = Some (NumCol ages)
          \<and> getitem b' ''grupo_edad'' = Some (StrCol grupos)
          \<and> length ages = len base \<and> length grupos = len base
          \<and> (\<forall>i<len base. \<forall>a. ages ! i = Some a \<longrightarrow> 0 \<le> a \<longrightarrow> a < 100
                \<longrightarrow> grupos ! i \<noteq> None)"
  proof (intro exI conjI)
    show "getitem b' ''age_years'' = Some (NumCol ages)" by (rule a)
    show "getitem b' ''grupo_edad'' = Some (StrCol ?grupos)" by (rule gr)
    show "length ages = len base" by (rule l)
    show "length ?grupos = len base" using l by simp
    show "\<forall>i<len base. \<forall>a. ages ! i = Some a \<longrightarrow> 0 \<le> a \<longrightarrow> a < 100 \<longrightarrow> ?grupos ! i \<noteq> None"
      by (rule cells)
  qed
  show ?thesis
    by (intro conjI c1 c2 c3 c4 c5 c6 c7)
qed

theorem procesar_datos_completes_columns_witness:
  "well_formed tabla_parcial
   \<and> fst (procesar_datos rng_ceros tabla_parcial)
       = Inr (projr (fst (procesar_datos rng_ceros tabla_parcial)))
   \<and> len (projr (fst (procesar_datos rng_ceros tabla_parcial))) = 2
   \<and> canonical (projr (fst (procesar_datos rng_ceros tabla_parcial)))
   \<and> \<not> has_column tabla_parcial ''ct_blood''
   \<and> populated (projr (fst (procesar_datos rng_ceros tabla_parcial))) ''ct_blood''
   \<and> getitem tabla_parcial ''bmi_calculado'' = Some (NumCol [Some 20, None])
   \<and> getitem (projr (fst (procesar_datos rng_ceros tabla_parcial))) ''bmi_calculado''
       = Some (NumCol [Some 20, None])
   \<and> well_formed tabla_vacia
   \<and> fst (procesar_datos rng_ceros tabla_vacia)
       = Inr (projr (fst (procesar_datos rng_ceros tabla_vacia)))
   \<and> \<not> has_column tabla_vacia ''age_years'' \<and> \<not> has_column tabla_vacia ''age''
   \<and> len (projr (fst (procesar_datos rng_ceros tabla_vacia))) = 1
   \<and> fully_populated (projr (fst (procesar_datos rng_ceros tabla_vacia)))"
proof -
  let ?bp = "projr (fst (procesar_datos rng_ceros tabla_parcial))"
  let ?bv = "projr (fst (procesar_datos rng_ceros tabla_vacia))"
  have wfp: "well_formed tabla_parcial"
    by (simp add: well_formed_def tabla_parcial_def)
  have wfv: "well_formed tabla_vacia"
    by (simp add: well_formed_def tabla_vacia_def)
  have ap: "getitem tabla_parcial ''age_years'' = Some (NumCol [Some 100, Some 30])"
    and mp: "getitem tabla_parcial ''bmi_calculado'' = Some (NumCol [Some 20, None])"
    and cp: "\<not> has_column tabla_parcial ''ct_blood''"
    by (simp_all add: getitem_def has_column_def tabla_parcial_def)
  have nv: "\<And>k. \<not> has_column tabla_vacia k"
    by (simp add: has_column_def tabla_vacia_def)
  have "\<exists>b' g'. procesar_datos rng_ceros tabla_parcial = (Inr b', g')"
    by (rule procesar_datos_succeeds) (simp add: ap)
  then have hp: "fst (procesar_datos rng_ceros tabla_parcial) = Inr ?bp"
    by auto
  have "\<exists>b' g'. procesar_datos rng_ceros tabla_vacia = (Inr b', g')"
    by (rule procesar_datos_succeeds [where ages = "[]"])
      (simp add: getitem_def tabla_vacia_def)
  then have hv: "fst (procesar_datos rng_ceros tabla_vacia) = Inr ?bv"
    by auto
  note ip = procesar_datos_completes_columns [OF wfp hp]
  note iv = procesar_datos_completes_columns [OF wfv hv]
  have p1: "len ?bp = 2"
    using ip [THEN conjunct1] by (simp add: tabla_parcial_def)
  have p2: "canonical ?bp"
    by (rule ip [THEN conjunct2, THEN conjunct1])
  have p3: "populated ?bp ''ct_blood''"
    by (rule ip [where k = "''ct_blood''", THEN conjunct2, THEN conjunct2, THEN conjunct2,
        THEN conjunct1, rule_format]) (simp_all add: cp)
  have p4: "getitem ?bp ''bmi_calculado'' = Some (NumCol [Some 20, None])"
    by (rule ip [where k = "''bmi_calculado''", THEN conjunct2, THEN conjunct2, THEN conjunct2,
        THEN conjunct2, THEN conjunct2, THEN conjunct1, rule_format]) (simp_all add: mp)
  have v1: "len ?bv = 1"
    using iv [THEN conjunct1] by (simp add: tabla_vacia_def)
  have v2: "populated ?bv ''mortalidad''"
    by (rule iv [THEN conjunct2, THEN conjunct2, THEN conjunct1])
  have v3: "populated ?bv ''age_years'' \<and> populated ?bv ''grupo_edad''"
    by (rule iv [THEN conjunct2, THEN conjunct2, THEN conjunct2, THEN conjunct2,
        THEN conjunct1, rule_format]) (rule nv)+
  have n_bmi_calculado: "populated ?bv ''bmi_calculado''"
    by (rule iv [where k = "''bmi_calculado''", THEN conjunct2, THEN conjunct2, THEN conjunct2,
        THEN conjunct1, rule_format]) (simp_all add: nv)
  have n_ct_blood: "populated ?bv ''ct_blood''"
    by (rule iv [where k = "''ct_blood''", THEN conjunct2, THEN conjunct2, THEN conjunct2,
        THEN conjunct1, rule_format]) (simp_all add: nv)
  have n_fever: "populated ?bv ''fever''"
    by (rule iv [where k = "''fever''", THEN conjunct2, THEN conjunct2, THEN conjunct2,
        THEN conjunct1, rule_format]) (simp_all add: nv)
  have n_cough: "populated ?bv ''cough''"
    by (rule iv [where k = "''cough''", THEN conjunct2, THEN conjunct2, THEN conjunct2,
        THEN conjunct1, rule_format]) (simp_all add: nv)
  have n_chills: "populated ?bv ''chills''"
    by (rule iv [where k = "''chills''", THEN conjunct2, THEN conjunct2, THEN conjunct2,
        THEN conjunct1, rule_format]) (simp_all add: nv)
  have n_aches: "populated ?bv ''aches''"
    by (rule iv [where k = "''aches''", THEN conjunct2, THEN conjunct2, THEN conjunct2,
        THEN conjunct1, rule_format]) (simp_all add: nv)
  have n_vomit: "populated ?bv ''vomit''"
    by (rule iv [where k = "''vomit''", THEN conjunct2, THEN conjunct2, THEN conjunct2,
        THEN conjunct1, rule_format]) (simp_all add: nv)
  have n_gender: "populated ?bv ''gender''"
    by (rule iv [where k = "''gender''", THEN conjunct2, THEN conjunct2, THEN conjunct2,
        THEN conjunct1, rule_format]) (simp_all add: nv)
  have n_cluster: "populated ?bv ''cluster''"
    by (rule iv [where k = "''cluster''", THEN conjunct2, THEN conjunct2, THEN conjunct2,
        THEN conjunct1, rule_format]) (simp_all add: nv)
  have v4: "fully_populated ?bv"
    using v2 v3 n_bmi_calculado n_ct_blood n_fever n_cough n_chills n_aches n_vomit n_gender n_cluster
    by (simp add: fully_populated_def canonical_columns_def)
  show ?thesis
    by (intro conjI wfp hp p1 p2 cp p3 mp p4 wfv hv nv v1 v4)
qed

end
